theory Spec2Isabelle
  imports Main "HOL-Library.AList"
begin

section \<open>Values crossing the platform boundary\<close>

text \<open>
  The response builder (\<^verbatim>\<open>src/lib/server/response.ts\<close>) receives bodies typed \<^verbatim>\<open>any\<close>
  and dispatches on their runtime shape. The shapes are a datatype; \<open>typeof\<close> is
  JavaScript's operator on it (\<^verbatim>\<open>typeof null\<close> is \<^verbatim>\<open>'object'\<close>). Numbers are carried and
  compared, never computed on, so the integer-valued ones stand for them. A Blob carries
  its \<^verbatim>\<open>type\<close> and its bytes.
\<close>

datatype jsval =
    JUndefined
  | JNull
  | JBool bool
  | JNum int
  | JStr string
  | JArr "jsval list"
  | JObj "(string \<times> jsval) list"
  | JBlob string string
  | JArrayBuffer string
  | JFormData string
  | JFunction
  | JSymbol

datatype js_type = TUndefined | TObject | TBoolean | TNumber | TString | TFunction | TSymbol

fun typeof :: "jsval \<Rightarrow> js_type" where
  "typeof JUndefined = TUndefined"
| "typeof JNull = TObject"
| "typeof (JBool b) = TBoolean"
| "typeof (JNum n) = TNumber"
| "typeof (JStr s) = TString"
| "typeof (JArr xs) = TObject"
| "typeof (JObj kvs) = TObject"
| "typeof (JBlob t bs) = TObject"
| "typeof (JArrayBuffer bs) = TObject"
| "typeof (JFormData bs) = TObject"
| "typeof JFunction = TFunction"
| "typeof JSymbol = TSymbol"

text \<open>JavaScript truthiness, as \<^verbatim>\<open>a || b\<close> tests it.\<close>

fun truthy :: "jsval \<Rightarrow> bool" where
  "truthy JUndefined = False"
| "truthy JNull = False"
| "truthy (JBool b) = b"
| "truthy (JNum n) = (n \<noteq> 0)"
| "truthy (JStr s) = (s \<noteq> [])"
| "truthy v = True"

definition js_or :: "jsval \<Rightarrow> jsval \<Rightarrow> jsval" where
  "js_or a b = (if truthy a then a else b)"

subsection \<open>Headers\<close>

text \<open>
  A \<^verbatim>\<open>Headers\<close> object: names are case-insensitive (stored in lower case), one value
  per name. An association list keeps the model executable.
\<close>

definition lower_char :: "char \<Rightarrow> char" where
  "lower_char c =
     (let n = (of_char c :: nat) in if 65 \<le> n \<and> n \<le> 90 then char_of (n + 32) else c)"

definition lower :: "string \<Rightarrow> string" where
  "lower s = map lower_char s"

type_synonym headers = "(string \<times> string) list"

definition hdr_has :: "string \<Rightarrow> headers \<Rightarrow> bool" where
  "hdr_has name h = (map_of h (lower name) \<noteq> None)"

definition hdr_get :: "string \<Rightarrow> headers \<Rightarrow> string option" where
  "hdr_get name h = map_of h (lower name)"

definition hdr_set :: "string \<Rightarrow> string \<Rightarrow> headers \<Rightarrow> headers" where
  "hdr_set name v h = AList.update (lower name) v h"

definition hdr_append :: "string \<Rightarrow> string \<Rightarrow> headers \<Rightarrow> headers" where
  "hdr_append name v h =
     (case map_of h (lower name) of
        None \<Rightarrow> AList.update (lower name) v h
      | Some old \<Rightarrow> AList.update (lower name) (old @ '', '' @ v) h)"

definition hdr_delete :: "string \<Rightarrow> headers \<Rightarrow> headers" where
  "hdr_delete name h = AList.delete (lower name) h"

text \<open>\<^verbatim>\<open>new Headers({'X-Powered-By': 'ServiceMocker'})\<close>, the builder's initial header map.\<close>

definition initial_headers :: headers where
  "initial_headers = hdr_set ''X-Powered-By'' ''ServiceMocker'' []"

subsection \<open>Requests, responses and network calls\<close>

record request =
  req_method :: string
  req_url :: string
  req_headers :: headers
  req_payload :: string

text \<open>\<^verbatim>\<open>RequestInfo\<close>: a URL string or a \<^verbatim>\<open>Request\<close> object (\<^verbatim>\<open>input instanceof Request\<close>).\<close>

datatype request_info = Url string | Req request

text \<open>\<^verbatim>\<open>RequestInit\<close>: every field may be absent (\<^verbatim>\<open>undefined\<close>).\<close>

record request_init =
  init_body :: jsval
  init_method :: "string option"
  init_headers :: "headers option"
  init_mode :: "string option"
  init_credentials :: "string option"

definition empty_init :: request_init where
  "empty_init = \<lparr>init_body = JUndefined, init_method = None, init_headers = None,
                  init_mode = None, init_credentials = None\<rparr>"

text \<open>
  What \<^verbatim>\<open>new Response(body, {headers, status, statusText})\<close> is given. The header map is
  copied by the constructor, so the record holds its value at that moment. A body of
  \<open>JUndefined\<close> is the empty (null) body.
\<close>

record response =
  resp_body :: jsval
  resp_headers :: headers
  resp_status :: int
  resp_statusText :: "string option"

text \<open>What a call on the builder can raise, and how a call ends.\<close>

datatype js_error = RangeError | TypeError | TypeMismatchError

datatype outcome = Returned | Raised js_error

text \<open>
  The global scope as \<^verbatim>\<open>nativeFetch\<close> reads it: whether \<^verbatim>\<open>fetch\<close> carries the
  \<^verbatim>\<open>mockerPatched\<close> marker (legacy mode), and whether \<^verbatim>\<open>XMLHttpRequest\<close> is absent, the
  native one, or the patched one (a fetch polyfill would run over it).
\<close>

datatype xhr = XhrAbsent | XhrNative | XhrPatched

record global_ctx =
  fetch_patched :: bool
  xhr_state :: xhr

text \<open>
  A network call: the function called (\<^verbatim>\<open>fetch.native\<close> or the global \<^verbatim>\<open>fetch\<close>), the
  global scope at the moment of the call, the arguments, and whether a continuation
  resolving the deferred object hangs on its result.
\<close>

datatype fetch_fn = Fetch_native | Fetch_global

datatype continuation = NoContinuation | ResolveDeferred

record net_call =
  via :: fetch_fn
  at_ctx :: global_ctx
  call_input :: request_info
  call_init :: "request_init option"
  on_return :: continuation

text \<open>
  A call re-enters the mocker when it goes through the global \<^verbatim>\<open>fetch\<close> while that is
  the patched one, or while a polyfilled \<^verbatim>\<open>fetch\<close> would run over the patched
  \<^verbatim>\<open>XMLHttpRequest\<close> (the cases 1 and 2 of the comment above \<^verbatim>\<open>nativeFetch\<close>).
\<close>

definition intercepted :: "net_call \<Rightarrow> bool" where
  "intercepted c =
     (via c = Fetch_global \<and> (fetch_patched (at_ctx c) \<or> xhr_state (at_ctx c) = XhrPatched))"

subsection \<open>Collaborators\<close>

text \<open>
  The libraries and platform facts the builder consults are parameters:
  \<^verbatim>\<open>mime.lookup\<close>, \<^verbatim>\<open>HttpStatus.getStatusText\<close> (\<open>None\<close> where it raises on an unknown
  code), \<^verbatim>\<open>JSON.stringify\<close> (\<open>None\<close> where it returns \<^verbatim>\<open>undefined\<close>), \<^verbatim>\<open>JSON.parse\<close>
  (\<open>None\<close> where it raises), the user-agent test \<^verbatim>\<open>IS_IE_EDGE\<close>, and what the
  platform's \<^verbatim>\<open>Response\<close> constructor refuses beyond the two checks written out below
  (\<open>also_refuses\<close>: a status text that is no reason phrase, the \<^verbatim>\<open>TypeMismatchError\<close>
  of IE Edge that the source warns of).
\<close>

record env =
  mime_lookup :: "string \<Rightarrow> string"
  status_text :: "int \<Rightarrow> string option"
  json_stringify :: "jsval \<Rightarrow> string option"
  json_parse :: "string \<Rightarrow> jsval option"
  is_ie_edge :: bool
  also_refuses :: "jsval \<Rightarrow> headers \<Rightarrow> int \<Rightarrow> string option \<Rightarrow> js_error option"

text \<open>
  \<^verbatim>\<open>new Response(body, {headers, status, statusText})\<close>: the constructor raises
  \<^verbatim>\<open>RangeError\<close> for a status outside 200 to 599, \<^verbatim>\<open>TypeError\<close> for a body given
  with a null-body status (of which 204, 205 and 304 lie in that range), and whatever
  else this platform refuses; otherwise the response holds what it was given.
\<close>

definition new_Response ::
    "env \<Rightarrow> jsval \<Rightarrow> headers \<Rightarrow> int \<Rightarrow> string option \<Rightarrow> js_error + response" where
  "new_Response e b h st txt =
     (if st < 200 \<or> 599 < st then Inl RangeError
      else if b \<noteq> JUndefined \<and> b \<noteq> JNull \<and> st \<in> {204, 205, 304} then Inl TypeError
      else (case also_refuses e b h st txt of
              Some err \<Rightarrow> Inl err
            | None \<Rightarrow> Inr \<lparr>resp_body = b, resp_headers = h, resp_status = st,
                           resp_statusText = txt\<rparr>))"

subsection \<open>The deferred object\<close>

text \<open>
  Modelled from the spec: the \<^verbatim>\<open>Defer\<close> class (\<^verbatim>\<open>../utils/\<close>) is not among the sources.
  The spec describes it as a single-assignment pairing of a producer with a consumer,
  whose resolution is guarded: only the first resolution has effect. It is resolved
  either with a response built by the builder, or with the result of a network call
  (the call's index in the list of calls issued).
\<close>

datatype resolution = Built response | FromNet nat

type_synonym defer_state = "resolution option"

text \<open>\<^verbatim>\<open>_deferred.done\<close>.\<close>

definition is_done :: "defer_state \<Rightarrow> bool" where
  "is_done d = (d \<noteq> None)"

definition resolve :: "resolution \<Rightarrow> defer_state \<Rightarrow> defer_state" where
  "resolve v d = (case d of None \<Rightarrow> Some v | Some x \<Rightarrow> Some x)"

section \<open>The response builder\<close>

text \<open>
  One intercepted request: the \<^verbatim>\<open>FetchEvent\<close>, the \<^verbatim>\<open>MockerResponse\<close> bound to it and
  what the two have done to the outside. The fields of \<^verbatim>\<open>MockerResponse\<close> keep their
  names (\<^verbatim>\<open>headers\<close>, \<^verbatim>\<open>_body\<close>, \<^verbatim>\<open>_statusCode\<close>, \<^verbatim>\<open>_deferred\<close>); \<open>resolved\<close> is the
  local variable of the fetch listener. The outside is recorded as it is touched: the
  arguments of every \<^verbatim>\<open>event.respondWith\<close> call, the timers armed and not yet fired or
  cleared (with their delay in milliseconds), the log lines, the network calls issued
  and which of them have come back (fulfilled or rejected), and the calls of
  \<^verbatim>\<open>forward\<close> suspended at their \<^verbatim>\<open>await\<close> of the request's body.
\<close>

datatype body_read = ReadFormData | ReadBlob | ReadText

record suspended =
  sus_url :: string
  sus_init :: request_init
  sus_read :: body_read

datatype promise_ref = DeferredPromise | DeferredPromiseThen

datatype timer = ResponseTimer | GlobalTimer

datatype log_level = Warn | Error

record world =
  event_request :: request
  respondWith_calls :: "promise_ref list"
  headers :: headers
  body :: jsval
  statusCode :: int
  deferred :: defer_state
  resolved :: bool
  timers :: "(timer \<times> nat) list"
  logs :: "(log_level \<times> string) list"
  net :: "net_call list"
  succeeded :: "nat list"
  failed :: "nat list"
  reading :: "suspended list"
  gctx :: global_ctx

definition NULL_BODY_STATUS :: "int list" where
  "NULL_BODY_STATUS = [101, 204, 205, 304]"

definition setTimeout :: "timer \<Rightarrow> nat \<Rightarrow> world \<Rightarrow> world" where
  "setTimeout t delay w = w\<lparr>timers := timers w @ [(t, delay)]\<rparr>"

definition clearTimeout :: "timer \<Rightarrow> world \<Rightarrow> world" where
  "clearTimeout t w = w\<lparr>timers := filter (\<lambda>(t', d). t' \<noteq> t) (timers w)\<rparr>"

definition armed :: "timer \<Rightarrow> world \<Rightarrow> bool" where
  "armed t w = (t \<in> fst ` set (timers w))"

definition log :: "log_level \<Rightarrow> string \<Rightarrow> world \<Rightarrow> world" where
  "log lvl msg w = w\<lparr>logs := logs w @ [(lvl, msg)]\<rparr>"

text \<open>
  The constructor: \<^verbatim>\<open>_event.respondWith(_deferred.promise)\<close>, then the timer of
  \<^verbatim>\<open>10 * 1e3\<close> milliseconds. The reactions \<^verbatim>\<open>_deferred.promise.then(clear, clear)\<close> it
  registers run when the promise settles; they are \<open>reactions\<close> below.
\<close>

definition MockerResponse_new :: "request \<Rightarrow> global_ctx \<Rightarrow> world" where
  "MockerResponse_new rq g =
     setTimeout ResponseTimer (10 * 1000)
       \<lparr>event_request = rq, respondWith_calls = [DeferredPromise],
        headers = initial_headers, body = JUndefined, statusCode = 200,
        deferred = None, resolved = False, timers = [], logs = [], net = [],
        succeeded = [], failed = [], reading = [], gctx = g\<rparr>"

definition status :: "int \<Rightarrow> world \<Rightarrow> world" where
  "status code w = w\<lparr>statusCode := code\<rparr>"

text \<open>\<^verbatim>\<open>type.indexOf('/') === -1 ? mime.lookup(type) : type\<close>\<close>

definition type :: "env \<Rightarrow> string \<Rightarrow> world \<Rightarrow> world" where
  "type e t w =
     (let contentType = (if CHR ''/'' \<notin> set t then mime_lookup e t else t)
      in w\<lparr>headers := hdr_set ''content-type'' contentType (headers w)\<rparr>)"

text \<open>
  \<^verbatim>\<open>_getStatusText\<close>: the library's text, and where it raises, \<^verbatim>\<open>JSON.stringify\<close> of the
  code.
\<close>

definition getStatusText :: "env \<Rightarrow> world \<Rightarrow> string option" where
  "getStatusText e w =
     (case status_text e (statusCode w) of
        Some s \<Rightarrow> Some s
      | None \<Rightarrow> json_stringify e (JNum (statusCode w)))"

text \<open>
  \<^verbatim>\<open>end()\<close>: the body is dropped for a null-body status and for HEAD, the content type
  defaults, the response is constructed and the deferred object resolved with it. Where
  the constructor raises, \<^verbatim>\<open>end()\<close> raises, after the header is set and before anything
  is resolved.
\<close>

definition res_end :: "env \<Rightarrow> world \<Rightarrow> outcome \<times> world" where
  "res_end e w =
     (let nullStatus = (statusCode w \<in> set NULL_BODY_STATUS);
          w1 = (if nullStatus \<and> is_ie_edge e
                then log Warn
                  ''using null body status in IE Edge may raise a `TypeMismatchError` Error'' w
                else w);
          responseBody = (if nullStatus then JUndefined else body w1);
          responseBody = (if req_method (event_request w1) = ''HEAD''
                          then JUndefined else responseBody);
          w2 = (if \<not> hdr_has ''content-type'' (headers w1) then type e ''text'' w1 else w1)
      in case new_Response e responseBody (headers w2) (statusCode w2) (getStatusText e w2) of
           Inl err \<Rightarrow> (Raised err, w2)
         | Inr response \<Rightarrow>
             (Returned, w2\<lparr>deferred := resolve (Built response) (deferred w2)\<rparr>))"

definition json :: "env \<Rightarrow> jsval \<Rightarrow> world \<Rightarrow> outcome \<times> world" where
  "json e b w =
     (let w1 = w\<lparr>body := (case json_stringify e b of Some s \<Rightarrow> JStr s | None \<Rightarrow> JUndefined)\<rparr>;
          w2 = (if \<not> hdr_has ''content-type'' (headers w1) then type e ''json'' w1 else w1)
      in res_end e w2)"

text \<open>The tail of \<^verbatim>\<open>send\<close> after the \<^verbatim>\<open>switch\<close>: the content type if none is set, then \<^verbatim>\<open>end()\<close>.\<close>

definition send_finish :: "env \<Rightarrow> string \<Rightarrow> world \<Rightarrow> outcome \<times> world" where
  "send_finish e contentType w =
     res_end e (if \<not> hdr_has ''content-type'' (headers w) then type e contentType w else w)"

text \<open>
  \<^verbatim>\<open>send\<close>: the \<^verbatim>\<open>switch (typeof body)\<close> has a case for \<^verbatim>\<open>'string'\<close> and one for
  \<^verbatim>\<open>'boolean'\<close>, \<^verbatim>\<open>'number'\<close> and \<^verbatim>\<open>'object'\<close>, and no default: every other type leaves
  \<^verbatim>\<open>_body\<close> as it was and \<^verbatim>\<open>contentType\<close> at its initial \<^verbatim>\<open>'text'\<close>.
\<close>

definition send :: "env \<Rightarrow> jsval \<Rightarrow> world \<Rightarrow> outcome \<times> world" where
  "send e b w =
     (if typeof b = TString then send_finish e ''html'' (w\<lparr>body := b\<rparr>)
      else if typeof b \<in> {TBoolean, TNumber, TObject} then
        (case b of
           JBlob t bs \<Rightarrow> send_finish e (if t \<noteq> [] then t else ''bin'') (w\<lparr>body := b\<rparr>)
         | JArrayBuffer bs \<Rightarrow> send_finish e ''bin'' (w\<lparr>body := b\<rparr>)
         | _ \<Rightarrow> json e b w)
      else send_finish e ''text'' w)"

definition sendStatus :: "env \<Rightarrow> int \<Rightarrow> world \<Rightarrow> outcome \<times> world" where
  "sendStatus e code w =
     (let w1 = type e ''text'' w;
          w2 = w1\<lparr>statusCode := code\<rparr>;
          b = (case getStatusText e w2 of Some s \<Rightarrow> JStr s | None \<Rightarrow> JUndefined)
      in send e b w2)"

subsection \<open>Forwarding\<close>

definition issue :: "net_call \<Rightarrow> world \<Rightarrow> nat \<times> world" where
  "issue c w = (length (net w), w\<lparr>net := net w @ [c]\<rparr>)"

text \<open>
  \<^verbatim>\<open>nativeFetch\<close>: \<^verbatim>\<open>fetch.native\<close> when \<^verbatim>\<open>fetch\<close> is patched; otherwise, when
  \<^verbatim>\<open>XMLHttpRequest\<close> is patched, the native one is put back for the duration of the call
  to \<^verbatim>\<open>fetch\<close> and the patched one restored after it; otherwise \<^verbatim>\<open>fetch\<close>. The result
  is the promise of the call, named by the call's index.
\<close>

definition nativeFetch :: "request_info \<Rightarrow> request_init option \<Rightarrow> world \<Rightarrow> nat \<times> world" where
  "nativeFetch input init w =
     (let g = gctx w in
      if fetch_patched g then
        issue \<lparr>via = Fetch_native, at_ctx = g, call_input = input, call_init = init,
               on_return = NoContinuation\<rparr> w
      else if xhr_state g = XhrPatched then
        (let w1 = w\<lparr>gctx := g\<lparr>xhr_state := XhrNative\<rparr>\<rparr>;
             (promise, w2) = issue \<lparr>via = Fetch_global, at_ctx = gctx w1, call_input = input,
                                    call_init = init, on_return = NoContinuation\<rparr> w1
         in (promise, w2\<lparr>gctx := g\<rparr>))
      else
        issue \<lparr>via = Fetch_global, at_ctx = g, call_input = input, call_init = init,
               on_return = NoContinuation\<rparr> w)"

text \<open>\<^verbatim>\<open>/form-data/.test(contentType)\<close>: the pattern occurs somewhere in the string.\<close>

fun occurs_in :: "string \<Rightarrow> string \<Rightarrow> bool" where
  "occurs_in p [] = (p = [])"
| "occurs_in p (c # cs) = (take (length p) (c # cs) = p \<or> occurs_in p cs)"

text \<open>
  \<^verbatim>\<open>forward\<close> is an \<^verbatim>\<open>async\<close> function. For a \<^verbatim>\<open>Request\<close> object, and for a URL when
  the intercepted request is a GET or a HEAD, it runs to its end without awaiting
  anything: the network call is issued and the deferred object resolved before it
  returns. For a URL on any other method it first awaits the body of a clone of the
  request (\<^verbatim>\<open>formData()\<close>, \<^verbatim>\<open>blob()\<close> or \<^verbatim>\<open>text()\<close>, by the content type) and is
  suspended there: \<open>forward\<close> records the suspended call, and \<open>body_read_done\<close> resumes
  it when the platform delivers the body, or drops it when the clone or the read fails
  (the function's own promise is rejected, nothing is issued and nothing resolved). The
  body delivered is the platform's; the model takes it as given.
\<close>

definition which_read :: "request \<Rightarrow> body_read" where
  "which_read rq =
     (case hdr_get ''content-type'' (req_headers rq) of
        Some contentType \<Rightarrow>
          (if contentType \<noteq> [] then
             (if occurs_in ''form-data'' contentType then ReadFormData else ReadBlob)
           else ReadText)
      | None \<Rightarrow> ReadText)"

text \<open>The \<^verbatim>\<open>options\<close> of the URL path, \<open>dflt\<close> being \<^verbatim>\<open>defaultBody\<close>.\<close>

definition forward_options :: "request \<Rightarrow> request_init \<Rightarrow> jsval \<Rightarrow> request_init" where
  "forward_options rq init dflt =
     \<lparr>init_body = js_or (init_body init) dflt,
      init_method = Some (case init_method init of
                            Some m \<Rightarrow> if m \<noteq> [] then m else req_method rq
                          | None \<Rightarrow> req_method rq),
      init_headers = Some (case init_headers init of
                             Some h \<Rightarrow> h
                           | None \<Rightarrow> req_headers rq),
      init_mode = Some ''cors'',
      init_credentials = Some ''include''\<rparr>"

text \<open>The end of the URL path: the options, the call, the resolution.\<close>

definition forward_finish :: "string \<Rightarrow> request_init \<Rightarrow> jsval \<Rightarrow> world \<Rightarrow> world" where
  "forward_finish u init dflt w =
     (let options = forward_options (event_request w) init dflt;
          (promise, w1) = nativeFetch (Url u) (Some options) w
      in w1\<lparr>deferred := resolve (FromNet promise) (deferred w1)\<rparr>)"

definition forward :: "request_info \<Rightarrow> request_init \<Rightarrow> world \<Rightarrow> world" where
  "forward input init w =
     (case input of
        Req r \<Rightarrow>
          (let (promise, w1) = nativeFetch input (Some init) w
           in w1\<lparr>deferred := resolve (FromNet promise) (deferred w1)\<rparr>)
      | Url u \<Rightarrow>
          (if req_method (event_request w) \<noteq> ''GET'' \<and> req_method (event_request w) \<noteq> ''HEAD''
           then w\<lparr>reading := reading w @
                     [\<lparr>sus_url = u, sus_init = init, sus_read = which_read (event_request w)\<rparr>]\<rparr>
           else forward_finish u init JUndefined w))"

text \<open>
  The \<open>k\<close>-th suspended \<^verbatim>\<open>forward\<close> gets its body (\<open>Some\<close>), or its read fails
  (\<open>None\<close>).
\<close>

definition body_read_done :: "nat \<Rightarrow> jsval option \<Rightarrow> world \<Rightarrow> world" where
  "body_read_done k result w =
     (if k < length (reading w) then
        (let s = reading w ! k;
             w1 = w\<lparr>reading := take k (reading w) @ drop (Suc k) (reading w)\<rparr>
         in case result of
              None \<Rightarrow> w1
            | Some dflt \<Rightarrow> forward_finish (sus_url s) (sus_init s) dflt w1)
      else w)"

section \<open>The dispatcher\<close>

text \<open>
  \<^verbatim>\<open>router._match(event, response)\<close> belongs to the router, which is not among the
  sources: a router is any function that may act on the builder and reports whether it
  matched. \<^verbatim>\<open>MockerRouter.routers.some(...)\<close> calls them in order and stops at the first
  that returns true.
\<close>

type_synonym router = "world \<Rightarrow> bool \<times> world"

fun some_match :: "router list \<Rightarrow> world \<Rightarrow> bool \<times> world" where
  "some_match [] w = (False, w)"
| "some_match (r # rs) w =
     (case r w of
        (True, w') \<Rightarrow> (True, w')
      | (False, w') \<Rightarrow> some_match rs w')"

text \<open>
  The fetch listener, up to its return: the builder is constructed (which calls
  \<^verbatim>\<open>respondWith\<close>), \<^verbatim>\<open>event.respondWith\<close> is called with the promise derived by
  \<^verbatim>\<open>then\<close>, the routers are tried, the timer of 2000 milliseconds is armed.
\<close>

definition listener :: "router list \<Rightarrow> request \<Rightarrow> global_ctx \<Rightarrow> world" where
  "listener routers rq g =
     (let response = MockerResponse_new rq g;
          w1 = response\<lparr>respondWith_calls := respondWith_calls response @ [DeferredPromiseThen]\<rparr>;
          (matched, w2) = some_match routers w1
      in setTimeout GlobalTimer 2000 w2)"

subsection \<open>After the listener: promise reactions, timers, network results\<close>

text \<open>
  The promise of the deferred object is fulfilled once it is resolved with a response,
  and follows the network call when it is resolved with one.
\<close>

datatype promise_state = Pending | Fulfilled | Rejected

definition deferred_promise :: "world \<Rightarrow> promise_state" where
  "deferred_promise w =
     (case deferred w of
        None \<Rightarrow> Pending
      | Some (Built r) \<Rightarrow> Fulfilled
      | Some (FromNet i) \<Rightarrow>
          (if i \<in> set (succeeded w) then Fulfilled
           else if i \<in> set (failed w) then Rejected
           else Pending))"

text \<open>
  The reactions on that promise, run after every task: the constructor's
  \<^verbatim>\<open>then(clear, clear)\<close> clears the builder's timer on either outcome, the listener's
  \<^verbatim>\<open>then((res) => { resolved = true; ... })\<close> sets its flag on fulfilment. Both are
  idempotent, so running them again changes nothing.
\<close>

definition reactions :: "world \<Rightarrow> world" where
  "reactions w =
     (case deferred_promise w of
        Pending \<Rightarrow> w
      | Fulfilled \<Rightarrow> clearTimeout ResponseTimer (w\<lparr>resolved := True\<rparr>)
      | Rejected \<Rightarrow> clearTimeout ResponseTimer w)"

text \<open>The callback of the builder's timer.\<close>

definition response_timeout :: "world \<Rightarrow> world" where
  "response_timeout w =
     (if is_done (deferred w) then w
      else forward (Req (event_request w)) empty_init
             (log Error ''processing response timeout, forgot to call `res.end()`?'' w))"

text \<open>
  The callback of the listener's timer: \<^verbatim>\<open>fetch(event.request)\<close> is the global
  \<^verbatim>\<open>fetch\<close>, with the continuation \<^verbatim>\<open>(res) => response._deferred.resolve(res)\<close>.
\<close>

definition global_timeout :: "world \<Rightarrow> world" where
  "global_timeout w =
     (if resolved w then w
      else (w\<lparr>resolved := True\<rparr>)
             \<lparr>net := net w @ [\<lparr>via = Fetch_global, at_ctx = gctx w,
                               call_input = Req (event_request w), call_init = None,
                               on_return = ResolveDeferred\<rparr>]\<rparr>)"

text \<open>A timer fires only while armed, and is spent by firing.\<close>

definition fire :: "timer \<Rightarrow> world \<Rightarrow> world" where
  "fire t w =
     (if armed t w then
        (case t of
           ResponseTimer \<Rightarrow> response_timeout (clearTimeout t w)
         | GlobalTimer \<Rightarrow> global_timeout (clearTimeout t w))
      else w)"

text \<open>
  A network call comes back once, fulfilled or rejected; a fulfilled call runs its
  continuation.
\<close>

definition net_return :: "nat \<Rightarrow> bool \<Rightarrow> world \<Rightarrow> world" where
  "net_return i ok w =
     (if i < length (net w) \<and> i \<notin> set (succeeded w) \<and> i \<notin> set (failed w) then
        (if ok then
           (let w1 = w\<lparr>succeeded := succeeded w @ [i]\<rparr>
            in if on_return (net w ! i) = ResolveDeferred
               then w1\<lparr>deferred := resolve (FromNet i) (deferred w1)\<rparr>
               else w1)
         else w\<lparr>failed := failed w @ [i]\<rparr>)
      else w)"

text \<open>What a handler can do to the builder it is given.\<close>

datatype op =
    Status int
  | Type string
  | Json jsval
  | Send jsval
  | SendStatus int
  | End
  | Forward request_info request_init
  | HeaderSet string string
  | HeaderAppend string string
  | HeaderDelete string

text \<open>
  A call either returns or raises; the calls that do not reach \<^verbatim>\<open>end()\<close> return
  (\<^verbatim>\<open>forward\<close> returns its promise). Header values are stored as given.
\<close>

fun apply_op :: "env \<Rightarrow> op \<Rightarrow> world \<Rightarrow> outcome \<times> world" where
  "apply_op e (Status code) w = (Returned, status code w)"
| "apply_op e (Type t) w = (Returned, type e t w)"
| "apply_op e (Json b) w = json e b w"
| "apply_op e (Send b) w = send e b w"
| "apply_op e (SendStatus code) w = sendStatus e code w"
| "apply_op e End w = res_end e w"
| "apply_op e (Forward input init) w = (Returned, forward input init w)"
| "apply_op e (HeaderSet name v) w = (Returned, w\<lparr>headers := hdr_set name v (headers w)\<rparr>)"
| "apply_op e (HeaderAppend name v) w =
     (Returned, w\<lparr>headers := hdr_append name v (headers w)\<rparr>)"
| "apply_op e (HeaderDelete name) w = (Returned, w\<lparr>headers := hdr_delete name (headers w)\<rparr>)"

text \<open>
  A sequence of calls made on the builder, each from wherever it is made: a call that
  raises leaves the state it reached, and the next call is made in that state.
\<close>

definition apply_ops :: "env \<Rightarrow> op list \<Rightarrow> world \<Rightarrow> world" where
  "apply_ops e ops w = fold (\<lambda>x w. snd (apply_op e x w)) ops w"

text \<open>
  One task of the event loop, followed by the promise reactions: a handler's call on
  the builder, a timer firing, a network call coming back, the body of the request
  arriving at a suspended \<^verbatim>\<open>forward\<close>.
\<close>

datatype task = Call op | Fire timer | NetReturn nat bool | BodyRead nat "jsval option"

fun run_task :: "env \<Rightarrow> task \<Rightarrow> world \<Rightarrow> world" where
  "run_task e (Call x) w = snd (apply_op e x w)"
| "run_task e (Fire t) w = fire t w"
| "run_task e (NetReturn i ok) w = net_return i ok w"
| "run_task e (BodyRead k result) w = body_read_done k result w"

definition step :: "env \<Rightarrow> task \<Rightarrow> world \<Rightarrow> world" where
  "step e t w = reactions (run_task e t w)"

definition run_tasks :: "env \<Rightarrow> task list \<Rightarrow> world \<Rightarrow> world" where
  "run_tasks e ts w = fold (step e) ts w"

text \<open>The listener as a task: its body, then the reactions.\<close>

definition dispatch :: "router list \<Rightarrow> request \<Rightarrow> global_ctx \<Rightarrow> world" where
  "dispatch routers rq g = reactions (listener routers rq g)"

section \<open>Notions the properties are stated with\<close>

text \<open>The calls that finalize a response themselves: \<^verbatim>\<open>end\<close>, \<^verbatim>\<open>json\<close>, \<^verbatim>\<open>send\<close>.\<close>

fun resolves_response :: "op \<Rightarrow> bool" where
  "resolves_response End = True"
| "resolves_response (Json b) = True"
| "resolves_response (Send b) = True"
| "resolves_response x = False"

text \<open>The calls that reach \<^verbatim>\<open>end()\<close>: the three above and \<^verbatim>\<open>sendStatus\<close>.\<close>

fun finalizes :: "op \<Rightarrow> bool" where
  "finalizes (SendStatus code) = True"
| "finalizes x = resolves_response x"

text \<open>A handler's call that writes or deletes the \<^verbatim>\<open>X-Powered-By\<close> header.\<close>

fun touches_powered_by :: "op \<Rightarrow> bool" where
  "touches_powered_by (HeaderSet name v) = (lower name = ''x-powered-by'')"
| "touches_powered_by (HeaderAppend name v) = (lower name = ''x-powered-by'')"
| "touches_powered_by (HeaderDelete name) = (lower name = ''x-powered-by'')"
| "touches_powered_by x = False"

text \<open>
  The dispatch loop as the specification words it: every router is asked, in
  registration order, whatever the earlier ones reported. The result says whether any
  of them matched.
\<close>

fun ask_every :: "router list \<Rightarrow> world \<Rightarrow> bool \<times> world" where
  "ask_every [] w = (False, w)"
| "ask_every (r # rs) w =
     (case r w of (m, w') \<Rightarrow> (case ask_every rs w' of (m', w'') \<Rightarrow> (m \<or> m', w'')))"

text \<open>The state in which the listener starts its loop over the routers.\<close>

definition before_routers :: "request \<Rightarrow> global_ctx \<Rightarrow> world" where
  "before_routers rq g =
     (MockerResponse_new rq g)\<lparr>respondWith_calls := [DeferredPromise, DeferredPromiseThen]\<rparr>"

text \<open>
  The response \<^verbatim>\<open>end()\<close> hands to the constructor, in one piece (that \<open>res_end\<close>
  resolves with it when it is accepted is lemma \<open>res_end_accepted\<close>).
\<close>

definition built :: "env \<Rightarrow> world \<Rightarrow> response" where
  "built e w =
     \<lparr>resp_body = (if statusCode w \<in> set NULL_BODY_STATUS \<or>
                      req_method (event_request w) = ''HEAD''
                   then JUndefined else body w),
      resp_headers = (if hdr_has ''content-type'' (headers w) then headers w
                      else hdr_set ''content-type'' (mime_lookup e ''text'') (headers w)),
      resp_status = statusCode w,
      resp_statusText = getStatusText e w\<rparr>"

text \<open>What the constructor makes of it.\<close>

definition constructed :: "env \<Rightarrow> world \<Rightarrow> js_error + response" where
  "constructed e w =
     new_Response e (resp_body (built e w)) (resp_headers (built e w)) (statusCode w)
       (getStatusText e w)"

text \<open>
  The platform constructs the response \<^verbatim>\<open>end()\<close> would build in this state: the
  status is in range and nothing else is refused.
\<close>

definition accepted :: "env \<Rightarrow> world \<Rightarrow> bool" where
  "accepted e w =
     (200 \<le> statusCode w \<and> statusCode w \<le> 599 \<and>
      also_refuses e (resp_body (built e w)) (resp_headers (built e w)) (statusCode w)
        (getStatusText e w) = None)"


text \<open>
  The route \<^verbatim>\<open>nativeFetch\<close> takes in a global scope: \<^verbatim>\<open>fetch.native\<close> when \<^verbatim>\<open>fetch\<close>
  is patched, the global \<^verbatim>\<open>fetch\<close> with the native \<^verbatim>\<open>XMLHttpRequest\<close> put back when
  only that is patched, the global \<^verbatim>\<open>fetch\<close> otherwise.
\<close>

definition native_route :: "global_ctx \<Rightarrow> net_call \<Rightarrow> bool" where
  "native_route g c =
     (if fetch_patched g then via c = Fetch_native \<and> at_ctx c = g
      else if xhr_state g = XhrPatched
        then via c = Fetch_global \<and> at_ctx c = g\<lparr>xhr_state := XhrNative\<rparr>
      else via c = Fetch_global \<and> at_ctx c = g)"

text \<open>
  The options of a forwarded URL: \<^verbatim>\<open>'cors'\<close>, credentials included, and the method,
  headers and body of the intercepted request (\<open>dflt\<close> being the body read off it)
  unless \<open>init\<close> overrides them with a non-empty method, with headers, with a truthy body.
\<close>

definition cloned_options :: "request \<Rightarrow> request_init \<Rightarrow> jsval \<Rightarrow> request_init \<Rightarrow> bool" where
  "cloned_options rq init dflt options =
     (init_mode options = Some ''cors'' \<and>
      init_credentials options = Some ''include'' \<and>
      init_method options =
        (if init_method init = None \<or> init_method init = Some [] then Some (req_method rq)
         else init_method init) \<and>
      init_headers options =
        (if init_headers init = None then Some (req_headers rq) else init_headers init) \<and>
      init_body options = (if truthy (init_body init) then init_body init else dflt))"

text \<open>
  \<^verbatim>\<open>forward\<close> awaits nothing: it is given a \<^verbatim>\<open>Request\<close> object, or the intercepted
  request is a GET or a HEAD.
\<close>

definition runs_through :: "request_info \<Rightarrow> world \<Rightarrow> bool" where
  "runs_through input w =
     (case input of
        Req r \<Rightarrow> True
      | Url u \<Rightarrow> req_method (event_request w) = ''GET'' \<or> req_method (event_request w) = ''HEAD'')"

text \<open>The two conditions under which \<^verbatim>\<open>end()\<close> drops the body.\<close>

definition no_body_allowed :: "world \<Rightarrow> bool" where
  "no_body_allowed w =
     (statusCode w \<in> set NULL_BODY_STATUS \<or> req_method (event_request w) = ''HEAD'')"

text \<open>The content type \<^verbatim>\<open>type()\<close> stores for its argument.\<close>

definition mime_of :: "env \<Rightarrow> string \<Rightarrow> string" where
  "mime_of e t = (if CHR ''/'' \<notin> set t then mime_lookup e t else t)"

text \<open>The content type of a response when the builder had one set, or else a default.\<close>

definition kept_or :: "world \<Rightarrow> string \<Rightarrow> string option" where
  "kept_or w dflt =
     (if hdr_has ''content-type'' (headers w) then hdr_get ''content-type'' (headers w)
      else Some dflt)"


text \<open>The builder once a finalizing call has set the content type, if none was set.\<close>

definition typed_if_unset :: "env \<Rightarrow> string \<Rightarrow> world \<Rightarrow> world" where
  "typed_if_unset e t w = (if \<not> hdr_has ''content-type'' (headers w) then type e t w else w)"

text \<open>
  A finalizing call is \<^verbatim>\<open>end()\<close> on the builder with, at most, other headers, another
  body and another status: \<open>prepared w w'\<close>.
\<close>

definition prepared :: "world \<Rightarrow> world \<Rightarrow> bool" where
  "prepared w w' = (\<exists>hs b c. w' = w\<lparr>headers := hs, body := b, statusCode := c\<rparr>)"

text \<open>The content type of a response.\<close>

definition content_type :: "response \<Rightarrow> string option" where
  "content_type r = hdr_get ''content-type'' (resp_headers r)"

text \<open>
  The builder's header map carries the identifying header; and the invariant that it
  does, together with the response the deferred object holds, if it holds one.
\<close>

definition carries_powered_by :: "headers \<Rightarrow> bool" where
  "carries_powered_by h = (hdr_get ''X-Powered-By'' h = Some ''ServiceMocker'')"

definition powered_inv :: "world \<Rightarrow> bool" where
  "powered_inv w =
     (carries_powered_by (headers w) \<and>
      (case deferred w of Some (Built r) \<Rightarrow> carries_powered_by (resp_headers r) | _ \<Rightarrow> True))"

section \<open>Concrete collaborators and inputs\<close>

text \<open>
  The collaborators at the values the examples below use: the MIME types of the four
  tokens the builder looks up, the texts of a few status codes, and JSON on one
  document and one number.
\<close>

definition demo_mime :: "string \<Rightarrow> string" where
  "demo_mime t =
     (if t = ''json'' then ''application/json''
      else if t = ''html'' then ''text/html''
      else if t = ''text'' then ''text/plain''
      else ''application/octet-stream'')"

definition demo_status_text :: "int \<Rightarrow> string option" where
  "demo_status_text c =
     (if c = 200 then Some ''OK''
      else if c = 201 then Some ''Created''
      else if c = 204 then Some ''No Content''
      else if c = 404 then Some ''Not Found''
      else None)"

definition demo_doc :: jsval where
  "demo_doc = JObj [(''id'', JNum 1)]"

definition demo_doc_text :: string where
  "demo_doc_text = [CHR ''{'', CHR 0x22, CHR ''i'', CHR ''d'', CHR 0x22, CHR '':'', CHR ''1'', CHR ''}'']"

definition demo_stringify :: "jsval \<Rightarrow> string option" where
  "demo_stringify v =
     (if v = demo_doc then Some demo_doc_text
      else if v = JNum 599 then Some ''599''
      else None)"

definition demo_parse :: "string \<Rightarrow> jsval option" where
  "demo_parse s =
     (if s = demo_doc_text then Some demo_doc
      else if s = ''599'' then Some (JNum 599)
      else None)"

definition demo_env :: env where
  "demo_env = \<lparr>mime_lookup = demo_mime, status_text = demo_status_text,
               json_stringify = demo_stringify, json_parse = demo_parse, is_ie_edge = False,
               also_refuses = (\<lambda>b h st txt. None)\<rparr>"

text \<open>
  The same seen from IE Edge, taken at the word of the source's warning: a null-body
  status raises \<^verbatim>\<open>TypeMismatchError\<close>.
\<close>

definition edge_env :: env where
  "edge_env = demo_env\<lparr>is_ie_edge := True,
     also_refuses := (\<lambda>b h st txt. if st \<in> set NULL_BODY_STATUS then Some TypeMismatchError
                                    else None)\<rparr>"

definition demo_get :: request where
  "demo_get = \<lparr>req_method = ''GET'', req_url = ''/anything'', req_headers = [],
               req_payload = []\<rparr>"

definition demo_post :: request where
  "demo_post = \<lparr>req_method = ''POST'', req_url = ''/items'',
                req_headers = [(''content-type'', ''application/json'')],
                req_payload = demo_doc_text\<rparr>"

text \<open>
  The global scope of a service worker (\<^verbatim>\<open>fetch\<close> is the platform's, there is no
  \<^verbatim>\<open>XMLHttpRequest\<close>) and of the legacy mode (both are patched).
\<close>

definition sw_ctx :: global_ctx where
  "sw_ctx = \<lparr>fetch_patched = False, xhr_state = XhrAbsent\<rparr>"

definition legacy_ctx :: global_ctx where
  "legacy_ctx = \<lparr>fetch_patched = True, xhr_state = XhrPatched\<rparr>"

text \<open>Two routers that match every request: one sets the status 201, one 404.\<close>

definition created_router :: router where
  "created_router w = (True, status 201 w)"

definition not_found_router :: router where
  "not_found_router w = (True, status 404 w)"

text \<open>A router that matches nothing.\<close>

definition idle_router :: router where
  "idle_router w = (False, w)"

text \<open>A router whose handler forwards the request to another URL.\<close>

definition forwarding_router :: router where
  "forwarding_router w = (True, forward (Url ''/elsewhere'') empty_init w)"

section \<open>Properties\<close>

subsection \<open>Fields and helpers\<close>

lemma lower_content_type: "lower ''content-type'' = ''content-type''"
  by code_simp

lemma lower_powered_by: "lower ''X-Powered-By'' = ''x-powered-by''"
  by code_simp

lemma resolve_done: "is_done d \<Longrightarrow> resolve v d = d"
  by (auto simp: is_done_def resolve_def)

lemma resolve_pending: "resolve v None = Some v"
  by (simp add: resolve_def)

lemma is_done_resolve: "is_done (resolve v d)"
  by (simp add: is_done_def resolve_def split: option.splits)

lemma log_fields [simp]:
  "event_request (log l m w) = event_request w"
  "respondWith_calls (log l m w) = respondWith_calls w"
  "headers (log l m w) = headers w"
  "body (log l m w) = body w"
  "statusCode (log l m w) = statusCode w"
  "deferred (log l m w) = deferred w"
  "resolved (log l m w) = resolved w"
  "timers (log l m w) = timers w"
  "logs (log l m w) = logs w @ [(l, m)]"
  "net (log l m w) = net w"
  "succeeded (log l m w) = succeeded w"
  "failed (log l m w) = failed w"
  "reading (log l m w) = reading w"
  "gctx (log l m w) = gctx w"
  by (simp_all add: log_def)

lemma type_fields [simp]:
  "event_request (type e t w) = event_request w"
  "respondWith_calls (type e t w) = respondWith_calls w"
  "headers (type e t w) =
     hdr_set ''content-type'' (if CHR ''/'' \<notin> set t then mime_lookup e t else t) (headers w)"
  "body (type e t w) = body w"
  "statusCode (type e t w) = statusCode w"
  "deferred (type e t w) = deferred w"
  "resolved (type e t w) = resolved w"
  "timers (type e t w) = timers w"
  "logs (type e t w) = logs w"
  "net (type e t w) = net w"
  "succeeded (type e t w) = succeeded w"
  "failed (type e t w) = failed w"
  "reading (type e t w) = reading w"
  "gctx (type e t w) = gctx w"
  by (simp_all add: type_def Let_def)

lemma getStatusText_simps [simp]:
  "getStatusText e (type e t w) = getStatusText e w"
  "getStatusText e (log l m w) = getStatusText e w"
  by (simp_all add: getStatusText_def split: option.splits)

lemma hdr_get_set_same: "hdr_get name (hdr_set name v h) = Some v"
  by (simp add: hdr_get_def hdr_set_def update_conv')

lemma hdr_get_set_other:
  "lower name \<noteq> lower name' \<Longrightarrow> hdr_get name (hdr_set name' v h) = hdr_get name h"
  by (simp add: hdr_get_def hdr_set_def update_conv')

lemma hdr_get_append_other:
  "lower name \<noteq> lower name' \<Longrightarrow> hdr_get name (hdr_append name' v h) = hdr_get name h"
  by (simp add: hdr_get_def hdr_append_def update_conv' split: option.splits)

lemma hdr_get_delete_other:
  "lower name \<noteq> lower name' \<Longrightarrow> hdr_get name (hdr_delete name' h) = hdr_get name h"
  by (simp add: hdr_get_def hdr_delete_def delete_conv')

lemma hdr_has_get: "hdr_has name h = (hdr_get name h \<noteq> None)"
  by (simp add: hdr_has_def hdr_get_def)

lemma hdr_has_set_same: "hdr_has name (hdr_set name v h)"
  by (simp add: hdr_has_get hdr_get_set_same)

subsection \<open>What \<^verbatim>\<open>end()\<close> does\<close>



lemma resp_status_built [simp]: "resp_status (built e w) = statusCode w"
  by (simp add: built_def)

text \<open>
  The guard of \<^verbatim>\<open>end()\<close> keeps the constructor's null-body check from firing: the
  constructor is given no body under 204, 205 and 304.
\<close>

lemma constructed_eq:
  "constructed e w =
     (if statusCode w < 200 \<or> 599 < statusCode w then Inl RangeError
      else (case also_refuses e (resp_body (built e w)) (resp_headers (built e w))
                   (statusCode w) (getStatusText e w) of
              Some err \<Rightarrow> Inl err
            | None \<Rightarrow> Inr (built e w)))"
proof -
  have guard: "(resp_body (built e w) \<noteq> JUndefined \<and> resp_body (built e w) \<noteq> JNull \<and>
                statusCode w \<in> {204, 205, 304}) = False"
    by (auto simp: built_def NULL_BODY_STATUS_def)
  have whole: "\<lparr>resp_body = resp_body (built e w), resp_headers = resp_headers (built e w),
                resp_status = statusCode w, resp_statusText = getStatusText e w\<rparr> = built e w"
    by (simp add: built_def)
  show ?thesis
    unfolding constructed_def new_Response_def guard whole by simp
qed

lemma accepted_constructed: "accepted e w \<longleftrightarrow> constructed e w = Inr (built e w)"
  by (auto simp: accepted_def constructed_eq split: option.splits)

lemma constructed_cases:
  "constructed e w = Inr (built e w) \<and> accepted e w \<or>
   (\<exists>err. constructed e w = Inl err \<and> \<not> accepted e w)"
  by (auto simp: accepted_def constructed_eq split: option.splits)

lemma res_end_fst:
  "fst (res_end e w) = (case constructed e w of Inl err \<Rightarrow> Raised err | Inr r \<Rightarrow> Returned)"
  by (simp add: res_end_def constructed_def built_def Let_def split: sum.splits)

lemma res_end_deferred:
  "deferred (snd (res_end e w)) =
     (case constructed e w of Inl err \<Rightarrow> deferred w | Inr r \<Rightarrow> resolve (Built r) (deferred w))"
  by (simp add: res_end_def constructed_def built_def Let_def split: sum.splits)

lemma res_end_fields [simp]:
  "event_request (snd (res_end e w)) = event_request w"
  "respondWith_calls (snd (res_end e w)) = respondWith_calls w"
  "headers (snd (res_end e w)) = (if hdr_has ''content-type'' (headers w) then headers w
                      else hdr_set ''content-type'' (mime_lookup e ''text'') (headers w))"
  "body (snd (res_end e w)) = body w"
  "statusCode (snd (res_end e w)) = statusCode w"
  "resolved (snd (res_end e w)) = resolved w"
  "timers (snd (res_end e w)) = timers w"
  "net (snd (res_end e w)) = net w"
  "succeeded (snd (res_end e w)) = succeeded w"
  "failed (snd (res_end e w)) = failed w"
  "reading (snd (res_end e w)) = reading w"
  "gctx (snd (res_end e w)) = gctx w"
  by (simp_all add: res_end_def Let_def split: sum.splits)

lemma res_end_returned: "fst (res_end e w) = Returned \<longleftrightarrow> accepted e w"
  using constructed_cases [of e w] by (auto simp: res_end_fst)

lemma res_end_accepted:
  "accepted e w \<Longrightarrow> deferred (snd (res_end e w)) = resolve (Built (built e w)) (deferred w)"
  by (simp add: res_end_deferred accepted_constructed)

lemma res_end_raised:
  "fst (res_end e w) = Raised err \<Longrightarrow> deferred (snd (res_end e w)) = deferred w"
  by (auto simp: res_end_fst res_end_deferred split: sum.splits)



lemma res_end_done: "is_done (deferred w) \<Longrightarrow> deferred (snd (res_end e w)) = deferred w"
  by (simp add: res_end_deferred resolve_done split: sum.splits)


subsection \<open>The finalizing calls end in \<^verbatim>\<open>end()\<close>\<close>

lemma typed_if_unset_fields [simp]:
  "event_request (typed_if_unset e t w) = event_request w"
  "body (typed_if_unset e t w) = body w"
  "statusCode (typed_if_unset e t w) = statusCode w"
  "deferred (typed_if_unset e t w) = deferred w"
  "net (typed_if_unset e t w) = net w"
  "reading (typed_if_unset e t w) = reading w"
  "gctx (typed_if_unset e t w) = gctx w"
  "getStatusText e (typed_if_unset e t w) = getStatusText e w"
  "no_body_allowed (typed_if_unset e t w) = no_body_allowed w"
  by (simp_all add: typed_if_unset_def no_body_allowed_def)

lemma typed_if_unset_body [simp]:
  "typed_if_unset e t (w\<lparr>body := b\<rparr>) = (typed_if_unset e t w)\<lparr>body := b\<rparr>"
  by (simp add: typed_if_unset_def type_def Let_def)

lemma typed_if_unset_has: "hdr_has ''content-type'' (headers (typed_if_unset e t w))"
  by (simp add: typed_if_unset_def hdr_has_set_same)

lemma typed_if_unset_get:
  "hdr_get ''content-type'' (headers (typed_if_unset e t w)) = kept_or w (mime_of e t)"
  by (simp add: typed_if_unset_def kept_or_def mime_of_def hdr_get_set_same)

lemma content_type_built_typed:
  "content_type (built e (typed_if_unset e t w)) = kept_or w (mime_of e t)"
  by (simp add: content_type_def built_def typed_if_unset_has typed_if_unset_get)

lemma json_as_end:
  "json e b w =
     res_end e (typed_if_unset e ''json''
       (w\<lparr>body := (case json_stringify e b of Some s \<Rightarrow> JStr s | None \<Rightarrow> JUndefined)\<rparr>))"
  by (simp add: json_def Let_def typed_if_unset_def type_def)

lemma send_finish_as_end: "send_finish e t w = res_end e (typed_if_unset e t w)"
  by (simp add: send_finish_def typed_if_unset_def)

lemma prepared_refl: "prepared w w"
proof -
  have "w = w\<lparr>headers := headers w, body := body w, statusCode := statusCode w\<rparr>" by simp
  then show ?thesis unfolding prepared_def by blast
qed

lemma prepared_typed: "prepared w (typed_if_unset e t (w\<lparr>body := b\<rparr>))"
proof -
  have "typed_if_unset e t (w\<lparr>body := b\<rparr>) =
      w\<lparr>headers := headers (typed_if_unset e t w), body := b, statusCode := statusCode w\<rparr>"
    by (simp add: typed_if_unset_def type_def Let_def)
  then show ?thesis unfolding prepared_def by blast
qed

lemma prepared_typed_same: "prepared w (typed_if_unset e t w)"
  using prepared_typed [where w = w and e = e and t = t and b = "body w"] by simp

lemma prepared_fields:
  assumes "prepared w w'"
  shows "event_request w' = event_request w" "deferred w' = deferred w" "net w' = net w"
    "reading w' = reading w" "gctx w' = gctx w" "logs w' = logs w" "timers w' = timers w"
    "respondWith_calls w' = respondWith_calls w" "resolved w' = resolved w"
  using assms unfolding prepared_def by auto

lemma json_prepared: "\<exists>w'. json e b w = res_end e w' \<and> prepared w w' \<and> statusCode w' = statusCode w"
  using prepared_typed [where w = w and e = e and t = "''json''"]
  by (auto simp: json_as_end)

lemma send_prepared: "\<exists>w'. send e b w = res_end e w' \<and> prepared w w' \<and> statusCode w' = statusCode w"
proof -
  have set_body: "\<exists>w'. send_finish e t (w\<lparr>body := v\<rparr>) = res_end e w' \<and> prepared w w' \<and>
      statusCode w' = statusCode w" for t v
    using prepared_typed [where w = w and e = e and t = t and b = v]
    by (auto simp: send_finish_as_end)
  have same: "\<exists>w'. send_finish e t w = res_end e w' \<and> prepared w w' \<and>
      statusCode w' = statusCode w" for t
    using prepared_typed_same [where w = w and e = e and t = t]
    by (auto simp: send_finish_as_end)
  show ?thesis
    by (cases b) (simp_all add: send_def set_body same json_prepared)
qed

lemma prepared_after_type_status:
  "prepared ((type e t w)\<lparr>statusCode := c\<rparr>) w' \<Longrightarrow> prepared w w'"
  unfolding prepared_def type_def Let_def by auto

lemma sendStatus_prepared:
  "\<exists>w'. sendStatus e code w = res_end e w' \<and> prepared w w' \<and> statusCode w' = code"
proof -
  define w2 where "w2 = (type e ''text'' w)\<lparr>statusCode := code\<rparr>"
  define b where "b = (case getStatusText e w2 of Some s \<Rightarrow> JStr s | None \<Rightarrow> JUndefined)"
  have eq: "sendStatus e code w = send e b w2"
    by (simp add: sendStatus_def Let_def w2_def b_def)
  from send_prepared [where e = e and b = b and w = w2] obtain w' where
    "send e b w2 = res_end e w'" "prepared w2 w'" "statusCode w' = statusCode w2"
    by blast
  then show ?thesis
    using prepared_after_type_status [where e = e and t = "''text''" and w = w and c = code and w' = w']
    by (auto simp: eq w2_def)
qed

lemma finalizes_as_end:
  assumes "finalizes x"
  shows "\<exists>w'. apply_op e x w = res_end e w' \<and> prepared w w' \<and>
              statusCode w' = statusCode (snd (apply_op e x w)) \<and> (x = End \<longrightarrow> w' = w)"
proof (cases x)
  case End
  then show ?thesis using prepared_refl [of w] by auto
next
  case (Json b)
  with json_prepared [where e = e and b = b and w = w] show ?thesis by auto
next
  case (Send b)
  with send_prepared [where e = e and b = b and w = w] show ?thesis by auto
next
  case (SendStatus code)
  with sendStatus_prepared [where e = e and code = code and w = w] show ?thesis by auto
qed (use assms in simp_all)

subsection \<open>A resolved builder stays as it is\<close>

lemma nativeFetch_fields:
  "deferred (snd (nativeFetch input init w)) = deferred w"
  "headers (snd (nativeFetch input init w)) = headers w"
  "gctx (snd (nativeFetch input init w)) = gctx w"
  "reading (snd (nativeFetch input init w)) = reading w"
  "logs (snd (nativeFetch input init w)) = logs w"
  "timers (snd (nativeFetch input init w)) = timers w"
  "event_request (snd (nativeFetch input init w)) = event_request w"
  "fst (nativeFetch input init w) = length (net w)"
  by (simp_all add: nativeFetch_def issue_def Let_def)

lemma forward_finish_fields:
  "deferred (forward_finish u init dflt w) = resolve (FromNet (length (net w))) (deferred w)"
  "headers (forward_finish u init dflt w) = headers w"
  by (simp_all add: forward_finish_def Let_def split_beta nativeFetch_fields)

lemma forward_deferred:
  "deferred (forward input init w) = deferred w \<or>
   deferred (forward input init w) = resolve (FromNet (length (net w))) (deferred w)"
  by (cases input)
     (simp_all add: forward_def forward_finish_fields Let_def split_beta nativeFetch_fields)

lemma forward_headers [simp]: "headers (forward input init w) = headers w"
  by (cases input)
     (simp_all add: forward_def forward_finish_fields Let_def split_beta nativeFetch_fields)

lemma done_forward: "is_done (deferred w) \<Longrightarrow> deferred (forward input init w) = deferred w"
  using forward_deferred [of input init w] by (auto simp: resolve_done)

lemma done_finalizes:
  assumes "finalizes x" and "is_done (deferred w)"
  shows "deferred (snd (apply_op e x w)) = deferred w"
proof -
  from finalizes_as_end [OF assms(1)] obtain w' where
    "apply_op e x w = res_end e w'" "prepared w w'"
    by blast
  with assms(2) show ?thesis
    using res_end_done [where e = e and w = w'] by (simp add: prepared_fields)
qed

lemma done_apply_op: "is_done (deferred w) \<Longrightarrow> deferred (snd (apply_op e x w)) = deferred w"
proof (cases "finalizes x")
  case True
  assume "is_done (deferred w)"
  with True show ?thesis by (rule done_finalizes)
next
  case False
  assume "is_done (deferred w)"
  with False show ?thesis by (cases x) (simp_all add: status_def done_forward)
qed

lemma done_apply_ops: "is_done (deferred w) \<Longrightarrow> deferred (apply_ops e xs w) = deferred w"
  unfolding apply_ops_def
  by (induction xs arbitrary: w) (simp_all add: done_apply_op)

lemma apply_ops_append: "apply_ops e (xs @ ys) w = apply_ops e ys (apply_ops e xs w)"
  by (simp add: apply_ops_def)

lemma apply_ops_Cons: "apply_ops e (x # xs) w = apply_ops e xs (snd (apply_op e x w))"
  by (simp add: apply_ops_def)


subsection \<open>Idempotent resolution\<close>

text \<open>
  C3. Resolution is idempotent. In any sequence of calls on a builder, once the deferred
  object is resolved no later call changes it: the first resolution stands. A call of
  \<^verbatim>\<open>end()\<close>, \<^verbatim>\<open>json()\<close> or \<^verbatim>\<open>send()\<close> that returns has resolved the deferred object
  with a response it built (which takes effect if nothing had resolved it before), so
  that every call after it is without effect on the response; a call that raises (the
  \<^verbatim>\<open>Response\<close> constructor refusing) has resolved nothing.
\<close>

theorem resolution_idempotent:
  assumes "resolves_response x"
  shows "(is_done (deferred (apply_ops e xs w))
            \<longrightarrow> deferred (apply_ops e (xs @ ys) w) = deferred (apply_ops e xs w)) \<and>
         (fst (apply_op e x w) = Returned
            \<longrightarrow> is_done (deferred (snd (apply_op e x w))) \<and>
                (\<exists>r. deferred (snd (apply_op e x w)) = resolve (Built r) (deferred w)) \<and>
                deferred (apply_ops e (x # ys) w) = deferred (snd (apply_op e x w))) \<and>
         (\<forall>err. fst (apply_op e x w) = Raised err
            \<longrightarrow> deferred (snd (apply_op e x w)) = deferred w)"
proof -
  have fin: "finalizes x" using assms by (cases x) simp_all
  from finalizes_as_end [OF fin] obtain w' where
    eq: "apply_op e x w = res_end e w'" and prep: "prepared w w'"
    by blast
  have d: "deferred w' = deferred w" using prep by (simp add: prepared_fields)
  have later: "is_done (deferred (apply_ops e xs w))
            \<longrightarrow> deferred (apply_ops e (xs @ ys) w) = deferred (apply_ops e xs w)"
    by (simp add: apply_ops_append done_apply_ops)
  have returned: "fst (apply_op e x w) = Returned
            \<longrightarrow> is_done (deferred (snd (apply_op e x w))) \<and>
                (\<exists>r. deferred (snd (apply_op e x w)) = resolve (Built r) (deferred w)) \<and>
                deferred (apply_ops e (x # ys) w) = deferred (snd (apply_op e x w))"
  proof
    assume "fst (apply_op e x w) = Returned"
    then have "accepted e w'" by (simp add: eq res_end_returned)
    then have r: "deferred (snd (apply_op e x w)) = resolve (Built (built e w')) (deferred w)"
      by (simp add: eq res_end_accepted d)
    then have dn: "is_done (deferred (snd (apply_op e x w)))"
      by (simp add: is_done_resolve)
    have "deferred (apply_ops e (x # ys) w) = deferred (snd (apply_op e x w))"
      using dn by (simp add: apply_ops_Cons done_apply_ops)
    with r dn show "is_done (deferred (snd (apply_op e x w))) \<and>
                (\<exists>r. deferred (snd (apply_op e x w)) = resolve (Built r) (deferred w)) \<and>
                deferred (apply_ops e (x # ys) w) = deferred (snd (apply_op e x w))"
      by blast
  qed
  have raised: "\<forall>err. fst (apply_op e x w) = Raised err
            \<longrightarrow> deferred (snd (apply_op e x w)) = deferred w"
    by (simp add: eq res_end_raised d)
  from later returned raised show ?thesis by blast
qed

subsection \<open>Evaluating the examples\<close>

lemma new_value:
  "MockerResponse_new rq g =
     \<lparr>event_request = rq, respondWith_calls = [DeferredPromise],
      headers = [(''x-powered-by'', ''ServiceMocker'')], body = JUndefined, statusCode = 200,
      deferred = None, resolved = False, timers = [(ResponseTimer, 10000)], logs = [], net = [],
      succeeded = [], failed = [], reading = [], gctx = g\<rparr>"
  by (simp add: MockerResponse_new_def setTimeout_def initial_headers_def hdr_set_def
      lower_powered_by)

lemma lower_request_id: "lower ''X-Request-Id'' = ''x-request-id''"
  by code_simp

lemmas demo_simps =
  new_value status_def json_def send_def send_finish_def sendStatus_def res_end_def
  new_Response_def Let_def type_def log_def hdr_has_def hdr_get_def hdr_set_def
  lower_content_type lower_powered_by lower_request_id
  demo_env_def demo_mime_def demo_status_text_def demo_stringify_def demo_parse_def
  demo_doc_def demo_doc_text_def demo_get_def demo_post_def sw_ctx_def legacy_ctx_def
  getStatusText_def NULL_BODY_STATUS_def resolve_def is_done_def apply_ops_def
  content_type_def kept_or_def no_body_allowed_def

theorem resolution_idempotent_witness:
  "resolves_response (Json demo_doc) \<and>
   fst (apply_op demo_env (Json demo_doc) (status 201 (MockerResponse_new demo_get sw_ctx)))
     = Returned \<and>
   is_done (deferred (snd (apply_op demo_env (Json demo_doc)
      (status 201 (MockerResponse_new demo_get sw_ctx))))) \<and>
   deferred (apply_ops demo_env [Json demo_doc, Send (JStr ''late''), End]
      (status 201 (MockerResponse_new demo_get sw_ctx))) =
     Some (Built \<lparr>resp_body = JStr demo_doc_text,
                  resp_headers = [(''x-powered-by'', ''ServiceMocker''),
                                  (''content-type'', ''application/json'')],
                  resp_status = 201, resp_statusText = Some ''Created''\<rparr>) \<and>
   resolves_response End \<and>
   fst (apply_op demo_env End (status 999 (MockerResponse_new demo_get sw_ctx)))
     = Raised RangeError \<and>
   deferred (snd (apply_op demo_env End (status 999 (MockerResponse_new demo_get sw_ctx))))
     = None \<and>
   is_done (deferred (apply_ops demo_env [End] (MockerResponse_new demo_get sw_ctx))) \<and>
   deferred (apply_ops demo_env ([End] @ [Status 404, Json demo_doc])
      (MockerResponse_new demo_get sw_ctx)) =
     deferred (apply_ops demo_env [End] (MockerResponse_new demo_get sw_ctx))"
proof -
  let ?w = "status 201 (MockerResponse_new demo_get sw_ctx)"
  let ?v = "status 999 (MockerResponse_new demo_get sw_ctx)"
  have h1: "resolves_response (Json demo_doc)" and h2: "resolves_response End"
    by simp_all
  have r1: "fst (apply_op demo_env (Json demo_doc) ?w) = Returned"
    by (simp add: demo_simps)
  have v1: "deferred (snd (apply_op demo_env (Json demo_doc) ?w)) =
     Some (Built \<lparr>resp_body = JStr demo_doc_text,
                  resp_headers = [(''x-powered-by'', ''ServiceMocker''),
                                  (''content-type'', ''application/json'')],
                  resp_status = 201, resp_statusText = Some ''Created''\<rparr>)"
    by (simp add: demo_simps)
  have r2: "fst (apply_op demo_env End ?v) = Raised RangeError"
    by (simp add: demo_simps)
  have p2: "deferred ?v = None"
    by (simp add: demo_simps)
  have d3: "is_done (deferred (apply_ops demo_env [End] (MockerResponse_new demo_get sw_ctx)))"
    by (simp add: demo_simps)
  note a = resolution_idempotent [OF h1, where e = demo_env and w = ?w
      and ys = "[Send (JStr ''late''), End]" and xs = "[]"]
  note b = resolution_idempotent [OF h2, where e = demo_env and w = ?v and xs = "[]"
      and ys = "[]"]
  note c = resolution_idempotent [OF h2, where e = demo_env
      and w = "MockerResponse_new demo_get sw_ctx" and xs = "[End]"
      and ys = "[Status 404, Json demo_doc]"]
  from a r1 have 1: "is_done (deferred (snd (apply_op demo_env (Json demo_doc) ?w)))"
    and 2: "deferred (apply_ops demo_env [Json demo_doc, Send (JStr ''late''), End] ?w) =
       deferred (snd (apply_op demo_env (Json demo_doc) ?w))"
    by blast+
  from b r2 have "deferred (snd (apply_op demo_env End ?v)) = deferred ?v"
    by blast
  from this p2 have 3: "deferred (snd (apply_op demo_env End ?v)) = None"
    by (rule trans)
  from c d3 have 4: "deferred (apply_ops demo_env ([End] @ [Status 404, Json demo_doc])
      (MockerResponse_new demo_get sw_ctx)) =
     deferred (apply_ops demo_env [End] (MockerResponse_new demo_get sw_ctx))"
    by blast
  from 2 v1 have 5: "deferred (apply_ops demo_env [Json demo_doc, Send (JStr ''late''), End] ?w) =
     Some (Built \<lparr>resp_body = JStr demo_doc_text,
                  resp_headers = [(''x-powered-by'', ''ServiceMocker''),
                                  (''content-type'', ''application/json'')],
                  resp_status = 201, resp_statusText = Some ''Created''\<rparr>)"
    by (rule trans)
  from h1 h2 r1 r2 d3 1 3 4 5 show ?thesis by blast
qed



text \<open>
  On IE Edge, taken at the word of the source's warning, \<^verbatim>\<open>end()\<close> under a null-body
  status logs the warning, raises, and resolves nothing.
\<close>

lemma edge_null_status_raises:
  "fst (res_end edge_env (status 204 (MockerResponse_new demo_get sw_ctx)))
     = Raised TypeMismatchError \<and>
   deferred (snd (res_end edge_env (status 204 (MockerResponse_new demo_get sw_ctx)))) = None \<and>
   logs (snd (res_end edge_env (status 204 (MockerResponse_new demo_get sw_ctx)))) =
     [(Warn, ''using null body status in IE Edge may raise a `TypeMismatchError` Error'')]"
  by (simp add: edge_env_def demo_simps)

subsection \<open>Null-body statuses, HEAD and the default content type\<close>






subsection \<open>The identifying header\<close>

lemma carries_set_content_type:
  "carries_powered_by h \<Longrightarrow> carries_powered_by (hdr_set ''content-type'' v h)"
  by (simp add: carries_powered_by_def hdr_get_set_other lower_content_type lower_powered_by)

lemma carries_built: "carries_powered_by (headers w) \<Longrightarrow> carries_powered_by (resp_headers (built e w))"
  by (simp add: built_def carries_set_content_type)

lemma powered_inv_type: "powered_inv w \<Longrightarrow> powered_inv (type e t w)"
  by (simp add: powered_inv_def carries_set_content_type)

lemma powered_inv_body [simp]: "powered_inv (w\<lparr>body := b\<rparr>) = powered_inv w"
  by (simp add: powered_inv_def)

lemma powered_inv_statusCode [simp]: "powered_inv (w\<lparr>statusCode := c\<rparr>) = powered_inv w"
  by (simp add: powered_inv_def)

lemma powered_inv_typed_if_unset: "powered_inv w \<Longrightarrow> powered_inv (typed_if_unset e t w)"
  by (simp add: typed_if_unset_def powered_inv_type)

lemma powered_inv_res_end: "powered_inv w \<Longrightarrow> powered_inv (snd (res_end e w))"
proof -
  assume inv: "powered_inv w"
  then have c: "carries_powered_by (headers w)" by (simp add: powered_inv_def)
  have h: "carries_powered_by (headers (snd (res_end e w)))"
    using c by (simp add: carries_set_content_type)
  have r: "carries_powered_by (resp_headers (built e w))"
    using c by (rule carries_built)
  from constructed_cases [of e w] show ?thesis
  proof (elim disjE conjE exE)
    assume "constructed e w = Inr (built e w)"
    then have "deferred (snd (res_end e w)) = resolve (Built (built e w)) (deferred w)"
      by (simp add: res_end_deferred)
    with inv h r show ?thesis
      by (auto simp: powered_inv_def resolve_def split: option.splits resolution.splits)
  next
    fix err assume "constructed e w = Inl err"
    then have "deferred (snd (res_end e w)) = deferred w"
      by (simp add: res_end_deferred)
    with inv h show ?thesis
      by (auto simp: powered_inv_def split: option.splits resolution.splits)
  qed
qed

lemma powered_inv_json: "powered_inv w \<Longrightarrow> powered_inv (snd (json e b w))"
  by (simp add: json_as_end powered_inv_res_end powered_inv_typed_if_unset)

lemma powered_inv_send_finish: "powered_inv w \<Longrightarrow> powered_inv (snd (send_finish e t w))"
  by (simp add: send_finish_as_end powered_inv_res_end powered_inv_typed_if_unset)

lemma powered_inv_send: "powered_inv w \<Longrightarrow> powered_inv (snd (send e b w))"
  by (cases b) (simp_all add: send_def powered_inv_send_finish powered_inv_json)

lemma powered_inv_sendStatus: "powered_inv w \<Longrightarrow> powered_inv (snd (sendStatus e c w))"
  by (simp add: sendStatus_def Let_def powered_inv_send powered_inv_type)

lemma powered_inv_forward: "powered_inv w \<Longrightarrow> powered_inv (forward input init w)"
  using forward_deferred [of input init w]
  by (auto simp: powered_inv_def resolve_def split: option.splits resolution.splits)

lemma powered_inv_apply_op:
  "powered_inv w \<Longrightarrow> \<not> touches_powered_by x \<Longrightarrow> powered_inv (snd (apply_op e x w))"
proof (cases x)
  case (HeaderSet name v)
  assume "powered_inv w" "\<not> touches_powered_by x"
  with HeaderSet show ?thesis
    by (simp add: powered_inv_def carries_powered_by_def hdr_get_set_other lower_powered_by)
next
  case (HeaderAppend name v)
  assume "powered_inv w" "\<not> touches_powered_by x"
  with HeaderAppend show ?thesis
    by (simp add: powered_inv_def carries_powered_by_def hdr_get_append_other lower_powered_by)
next
  case (HeaderDelete name)
  assume "powered_inv w" "\<not> touches_powered_by x"
  with HeaderDelete show ?thesis
    by (simp add: powered_inv_def carries_powered_by_def hdr_get_delete_other lower_powered_by)
qed (simp_all add: status_def powered_inv_type powered_inv_json powered_inv_send
       powered_inv_sendStatus powered_inv_res_end powered_inv_forward)

lemma powered_inv_apply_ops:
  "powered_inv w \<Longrightarrow> list_all (\<lambda>x. \<not> touches_powered_by x) xs \<Longrightarrow> powered_inv (apply_ops e xs w)"
  unfolding apply_ops_def
  by (induction xs arbitrary: w) (simp_all add: powered_inv_apply_op)

lemma powered_inv_new: "powered_inv (MockerResponse_new rq g)"
  by (simp add: powered_inv_def MockerResponse_new_def setTimeout_def initial_headers_def
      carries_powered_by_def hdr_get_set_same)

text \<open>
  C10. A new builder's header map holds \<^verbatim>\<open>X-Powered-By: ServiceMocker\<close>, and after any
  calls of a handler on the builder, none of which sets, appends to or deletes that
  header, a response the builder finalized carries it.
\<close>

theorem powered_by_header:
  assumes "list_all (\<lambda>x. \<not> touches_powered_by x) xs"
    and "deferred (apply_ops e xs (MockerResponse_new rq g)) = Some (Built r)"
  shows "hdr_get ''X-Powered-By'' (headers (MockerResponse_new rq g)) = Some ''ServiceMocker'' \<and>
         hdr_get ''X-Powered-By'' (resp_headers r) = Some ''ServiceMocker''"
proof -
  have "powered_inv (apply_ops e xs (MockerResponse_new rq g))"
    using powered_inv_new assms(1) by (rule powered_inv_apply_ops)
  with assms(2) have "carries_powered_by (resp_headers r)"
    by (simp add: powered_inv_def)
  moreover have "carries_powered_by (headers (MockerResponse_new rq g))"
    using powered_inv_new [of rq g] by (simp add: powered_inv_def)
  ultimately show ?thesis by (simp add: carries_powered_by_def)
qed

theorem powered_by_header_witness:
  "list_all (\<lambda>x. \<not> touches_powered_by x)
     [Status 201, HeaderSet ''X-Request-Id'' ''42'', Json demo_doc] \<and>
   deferred (apply_ops demo_env [Status 201, HeaderSet ''X-Request-Id'' ''42'', Json demo_doc]
      (MockerResponse_new demo_get sw_ctx)) =
     Some (Built \<lparr>resp_body = JStr demo_doc_text,
                  resp_headers = [(''x-powered-by'', ''ServiceMocker''), (''x-request-id'', ''42''),
                                  (''content-type'', ''application/json'')],
                  resp_status = 201, resp_statusText = Some ''Created''\<rparr>) \<and>
   hdr_get ''X-Powered-By'' (headers (MockerResponse_new demo_get sw_ctx)) = Some ''ServiceMocker'' \<and>
   hdr_get ''X-Powered-By'' [(''x-powered-by'', ''ServiceMocker''), (''x-request-id'', ''42''),
                             (''content-type'', ''application/json'')] = Some ''ServiceMocker''"
proof -
  have h: "list_all (\<lambda>x. \<not> touches_powered_by x)
     [Status 201, HeaderSet ''X-Request-Id'' ''42'', Json demo_doc]"
    by (simp add: lower_request_id)
  have v: "deferred (apply_ops demo_env [Status 201, HeaderSet ''X-Request-Id'' ''42'', Json demo_doc]
      (MockerResponse_new demo_get sw_ctx)) =
     Some (Built \<lparr>resp_body = JStr demo_doc_text,
                  resp_headers = [(''x-powered-by'', ''ServiceMocker''), (''x-request-id'', ''42''),
                                  (''content-type'', ''application/json'')],
                  resp_status = 201, resp_statusText = Some ''Created''\<rparr>)"
    by (simp add: demo_simps)
  from powered_by_header [OF h v] have
    "hdr_get ''X-Powered-By'' (headers (MockerResponse_new demo_get sw_ctx)) = Some ''ServiceMocker''"
    "hdr_get ''X-Powered-By'' [(''x-powered-by'', ''ServiceMocker''), (''x-request-id'', ''42''),
                             (''content-type'', ''application/json'')] = Some ''ServiceMocker''"
    by simp_all
  with h v show ?thesis by (intro conjI)
qed

subsection \<open>The dispatch loop\<close>

lemma some_match_no_match:
  "some_match rs w = (False, w') \<Longrightarrow> ask_every rs w = (False, w')"
proof (induction rs arbitrary: w)
  case Nil
  then show ?case by simp
next
  case (Cons r rs)
  obtain m w1 where r: "r w = (m, w1)" by (cases "r w")
  with Cons.prems have m: "\<not> m" and rest: "some_match rs w1 = (False, w')"
    by (auto split: if_splits bool.splits)
  from Cons.IH [OF rest] r m show ?case by simp
qed

lemma some_match_stops:
  "ask_every rs1 w = (False, wm) \<Longrightarrow> r wm = (True, w') \<Longrightarrow>
   some_match (rs1 @ r # rs2) w = (True, w')"
proof (induction rs1 arbitrary: w)
  case Nil
  then show ?case by simp
next
  case (Cons a rs1)
  obtain m w1 where a: "a w = (m, w1)" by (cases "a w")
  obtain m' w2 where e: "ask_every rs1 w1 = (m', w2)" by (cases "ask_every rs1 w1")
  from Cons.prems(1) a e have "\<not> m" "\<not> m'" "w2 = wm" by auto
  with Cons.IH [of w1] e Cons.prems(2) a show ?case by simp
qed

lemma some_match_match:
  "some_match rs w = (True, w') \<Longrightarrow>
   \<exists>rs1 r rs2 wm. rs = rs1 @ r # rs2 \<and> ask_every rs1 w = (False, wm) \<and> r wm = (True, w')"
proof (induction rs arbitrary: w)
  case Nil
  then show ?case by simp
next
  case (Cons a rs)
  obtain m w1 where a: "a w = (m, w1)" by (cases "a w")
  show ?case
  proof (cases m)
    case True
    with Cons.prems a have "w1 = w'" by simp
    with a True have "a # rs = [] @ a # rs \<and> ask_every [] w = (False, w) \<and> a w = (True, w')"
      by simp
    then show ?thesis by blast
  next
    case False
    with Cons.prems a have "some_match rs w1 = (True, w')" by simp
    from Cons.IH [OF this] obtain rs1 r rs2 wm where
      "rs = rs1 @ r # rs2" "ask_every rs1 w1 = (False, wm)" "r wm = (True, w')"
      by blast
    with a False have "a # rs = (a # rs1) @ r # rs2 \<and> ask_every (a # rs1) w = (False, wm) \<and>
        r wm = (True, w')"
      by simp
    then show ?thesis by blast
  qed
qed

lemma listener_some_match:
  "listener rs rq g = setTimeout GlobalTimer 2000 (snd (some_match rs (before_routers rq g)))"
  by (simp add: listener_def before_routers_def Let_def split_beta MockerResponse_new_def
      setTimeout_def)

text \<open>
  C1, as the code has it. The listener asks the routers in registration order and stops
  at the first whose \<^verbatim>\<open>_match\<close> reports a match. When the loop reports a match, the
  registry splits into the routers before the matching one, each of which was asked and
  reported none, the matching router, asked in the state they left, and the routers
  after it, which are not asked: the listener ends in the same state whatever routers
  stand there. When the loop reports no match, every router has been asked, in order.
  Either way the listener then arms its timer in the state the loop left.
\<close>

theorem dispatch_stops_at_first_match:
  assumes "some_match rs (before_routers rq g) = (m, w')"
  shows "listener rs rq g = setTimeout GlobalTimer 2000 w' \<and>
         (if m
          then \<exists>rs1 r rs2 wm. rs = rs1 @ r # rs2 \<and>
                 ask_every rs1 (before_routers rq g) = (False, wm) \<and> r wm = (True, w') \<and>
                 (\<forall>rs'. listener (rs1 @ r # rs') rq g = listener rs rq g)
          else ask_every rs (before_routers rq g) = (False, w'))"
proof -
  have l: "listener rs rq g = setTimeout GlobalTimer 2000 w'"
    using assms by (simp add: listener_some_match)
  show ?thesis
  proof (cases m)
    case True
    with assms have "some_match rs (before_routers rq g) = (True, w')" by simp
    from some_match_match [OF this] obtain rs1 r rs2 wm where
      split: "rs = rs1 @ r # rs2" and before: "ask_every rs1 (before_routers rq g) = (False, wm)"
      and hit: "r wm = (True, w')"
      by blast
    have "some_match (rs1 @ r # rs') (before_routers rq g) = (True, w')" for rs'
      using some_match_stops [where ?rs1.0 = rs1 and r = r and w = "before_routers rq g"
          and wm = wm and w' = w' and ?rs2.0 = rs'] before hit
      by simp
    then have "listener (rs1 @ r # rs') rq g = setTimeout GlobalTimer 2000 w'" for rs'
      by (simp add: listener_some_match)
    then have all: "\<forall>rs'. listener (rs1 @ r # rs') rq g = listener rs rq g"
      by (simp only: l simp_thms)
    have "\<exists>rs1 r rs2 wm. rs = rs1 @ r # rs2 \<and>
                 ask_every rs1 (before_routers rq g) = (False, wm) \<and> r wm = (True, w') \<and>
                 (\<forall>rs'. listener (rs1 @ r # rs') rq g = listener rs rq g)"
      by (intro exI [where x = rs1] exI [where x = r] exI [where x = rs2] exI [where x = wm]
          conjI split before hit all)
    with True l show ?thesis by simp
  next
    case False
    with assms some_match_no_match [of rs "before_routers rq g" w'] l show ?thesis by simp
  qed
qed

lemma before_routers_value:
  "before_routers rq g =
     \<lparr>event_request = rq, respondWith_calls = [DeferredPromise, DeferredPromiseThen],
      headers = [(''x-powered-by'', ''ServiceMocker'')], body = JUndefined, statusCode = 200,
      deferred = None, resolved = False, timers = [(ResponseTimer, 10000)], logs = [], net = [],
      succeeded = [], failed = [], reading = [], gctx = g\<rparr>"
  by (simp add: before_routers_def new_value)

theorem dispatch_stops_at_first_match_witness:
  "some_match [idle_router, created_router, not_found_router] (before_routers demo_get sw_ctx)
     = (True, status 201 (before_routers demo_get sw_ctx)) \<and>
   listener [idle_router, created_router, not_found_router] demo_get sw_ctx
     = setTimeout GlobalTimer 2000 (status 201 (before_routers demo_get sw_ctx)) \<and>
   (\<exists>rs1 r rs2 wm.
      [idle_router, created_router, not_found_router] = rs1 @ r # rs2 \<and>
      ask_every rs1 (before_routers demo_get sw_ctx) = (False, wm) \<and>
      r wm = (True, status 201 (before_routers demo_get sw_ctx)) \<and>
      (\<forall>rs'. listener (rs1 @ r # rs') demo_get sw_ctx
               = listener [idle_router, created_router, not_found_router] demo_get sw_ctx)) \<and>
   some_match [idle_router, idle_router] (before_routers demo_get sw_ctx)
     = (False, before_routers demo_get sw_ctx) \<and>
   ask_every [idle_router, idle_router] (before_routers demo_get sw_ctx)
     = (False, before_routers demo_get sw_ctx)"
proof -
  have h: "some_match [idle_router, created_router, not_found_router]
             (before_routers demo_get sw_ctx)
           = (True, status 201 (before_routers demo_get sw_ctx))"
    by (simp add: idle_router_def created_router_def)
  have n: "some_match [idle_router, idle_router] (before_routers demo_get sw_ctx)
     = (False, before_routers demo_get sw_ctx)"
    by (simp add: idle_router_def)
  note t = dispatch_stops_at_first_match [OF h, unfolded if_True]
  note u = dispatch_stops_at_first_match [OF n, unfolded if_False]
  show ?thesis
    by (intro conjI h n t [THEN conjunct1] t [THEN conjunct2] u [THEN conjunct2])
qed

text \<open>
  C1 as stated fails: of two routers that both match, the first setting the status 201
  and the second 404, the listener runs the first only. Asking every router would leave
  404.
\<close>

theorem every_router_asked_counterexample:
  "some_match [created_router, not_found_router] (before_routers demo_get sw_ctx)
     = (True, status 201 (before_routers demo_get sw_ctx)) \<and>
   ask_every [created_router, not_found_router] (before_routers demo_get sw_ctx)
     = (True, status 404 (status 201 (before_routers demo_get sw_ctx))) \<and>
   statusCode (listener [created_router, not_found_router] demo_get sw_ctx) = 201 \<and>
   statusCode (snd (ask_every [created_router, not_found_router]
      (before_routers demo_get sw_ctx))) = 404"
  by (simp add: listener_some_match created_router_def not_found_router_def status_def
      setTimeout_def)

subsection \<open>The calls of \<^verbatim>\<open>respondWith\<close>\<close>

text \<open>
  C2. The claim is that \<^verbatim>\<open>respondWith\<close> is called exactly once for an event. The
  constructor of the builder calls it with the deferred promise, and the listener, which
  has just run the constructor, calls it again with the promise derived by \<^verbatim>\<open>then\<close>:
  two calls for every event, both before the listener returns. (What the platform does
  on the second call is outside the model.)
\<close>

theorem respondWith_called_twice:
  "respondWith_calls (MockerResponse_new rq g) = [DeferredPromise] \<and>
   respondWith_calls (listener [] rq g) = [DeferredPromise, DeferredPromiseThen]"
  by (simp add: listener_some_match before_routers_def MockerResponse_new_def setTimeout_def)

subsection \<open>The dispatch table of \<^verbatim>\<open>send\<close>\<close>




lemma mime_of_tokens [simp]:
  "mime_of e ''html'' = mime_lookup e ''html''"
  "mime_of e ''json'' = mime_lookup e ''json''"
  "mime_of e ''text'' = mime_lookup e ''text''"
  "mime_of e ''bin'' = mime_lookup e ''bin''"
  by (simp_all add: mime_of_def)





subsection \<open>The JSON round trip\<close>




subsection \<open>Forwarding\<close>

lemma nativeFetch_call:
  "\<exists>c. nativeFetch input init w = (length (net w), w\<lparr>net := net w @ [c]\<rparr>) \<and>
       \<not> intercepted c \<and> native_route (gctx w) c \<and> call_input c = input \<and>
       call_init c = init \<and> on_return c = NoContinuation"
proof -
  let ?native = "\<lparr>via = Fetch_native, at_ctx = gctx w,
               call_input = input, call_init = init, on_return = NoContinuation\<rparr>"
  let ?swapped = "\<lparr>via = Fetch_global, at_ctx = (gctx w)\<lparr>xhr_state := XhrNative\<rparr>,
               call_input = input, call_init = init, on_return = NoContinuation\<rparr>"
  let ?plain = "\<lparr>via = Fetch_global, at_ctx = gctx w,
               call_input = input, call_init = init, on_return = NoContinuation\<rparr>"
  consider (patched) "fetch_patched (gctx w)"
    | (polyfill) "\<not> fetch_patched (gctx w)" "xhr_state (gctx w) = XhrPatched"
    | (plain) "\<not> fetch_patched (gctx w)" "xhr_state (gctx w) \<noteq> XhrPatched"
    by blast
  then show ?thesis
  proof cases
    case patched
    then have "nativeFetch input init w = (length (net w), w\<lparr>net := net w @ [?native]\<rparr>)"
      by (simp add: nativeFetch_def issue_def Let_def)
    moreover have "\<not> intercepted ?native" by (simp add: intercepted_def)
    moreover have "native_route (gctx w) ?native"
      using patched by (simp add: native_route_def)
    ultimately show ?thesis by (intro exI [where x = ?native]) simp
  next
    case polyfill
    then have "nativeFetch input init w = (length (net w), w\<lparr>net := net w @ [?swapped]\<rparr>)"
      by (simp add: nativeFetch_def issue_def Let_def)
    moreover have "\<not> intercepted ?swapped"
      using polyfill by (simp add: intercepted_def)
    moreover have "native_route (gctx w) ?swapped"
      using polyfill by (simp add: native_route_def)
    ultimately show ?thesis by (intro exI [where x = ?swapped]) simp
  next
    case plain
    then have "nativeFetch input init w = (length (net w), w\<lparr>net := net w @ [?plain]\<rparr>)"
      by (simp add: nativeFetch_def issue_def Let_def)
    moreover have "\<not> intercepted ?plain"
      using plain by (simp add: intercepted_def)
    moreover have "native_route (gctx w) ?plain"
      using plain by (simp add: native_route_def)
    ultimately show ?thesis by (intro exI [where x = ?plain]) simp
  qed
qed

lemma cloned_forward_options:
  "cloned_options rq init dflt (forward_options rq init dflt)"
  by (auto simp: cloned_options_def forward_options_def js_or_def split: option.splits)

lemma forward_finish_call:
  "\<exists>c options.
     forward_finish u init dflt w =
       w\<lparr>net := net w @ [c], deferred := resolve (FromNet (length (net w))) (deferred w)\<rparr> \<and>
     \<not> intercepted c \<and> native_route (gctx w) c \<and> call_input c = Url u \<and>
     call_init c = Some options \<and> cloned_options (event_request w) init dflt options"
proof -
  let ?o = "forward_options (event_request w) init dflt"
  from nativeFetch_call [of "Url u" "Some ?o" w] obtain c where
    c: "nativeFetch (Url u) (Some ?o) w = (length (net w), w\<lparr>net := net w @ [c]\<rparr>)"
      "\<not> intercepted c" "native_route (gctx w) c" "call_input c = Url u"
      "call_init c = Some ?o"
    by blast
  have "forward_finish u init dflt w =
       w\<lparr>net := net w @ [c], deferred := resolve (FromNet (length (net w))) (deferred w)\<rparr>"
    using c(1) by (simp add: forward_finish_def Let_def)
  with c cloned_forward_options [of "event_request w" init dflt] show ?thesis by blast
qed

lemma forward_request_call:
  "\<exists>c. forward (Req rq) init w =
       w\<lparr>net := net w @ [c], deferred := resolve (FromNet (length (net w))) (deferred w)\<rparr> \<and>
     \<not> intercepted c \<and> native_route (gctx w) c \<and> call_input c = Req rq \<and>
     call_init c = Some init"
proof -
  from nativeFetch_call [of "Req rq" "Some init" w] obtain c where
    c: "nativeFetch (Req rq) (Some init) w = (length (net w), w\<lparr>net := net w @ [c]\<rparr>)"
      "\<not> intercepted c" "native_route (gctx w) c" "call_input c = Req rq"
      "call_init c = Some init"
    by blast
  have "forward (Req rq) init w =
       w\<lparr>net := net w @ [c], deferred := resolve (FromNet (length (net w))) (deferred w)\<rparr>"
    using c(1) by (simp add: forward_def)
  with c show ?thesis by blast
qed


text \<open>
  C9, as the code has it. Given a \<^verbatim>\<open>Request\<close> object, or a URL while the intercepted
  request is a GET or a HEAD, \<^verbatim>\<open>forward(input, init)\<close> issues one network call before
  it returns and resolves the deferred object with the call's result (which takes effect
  if the builder was pending). Given a URL on any other method it issues nothing and
  resolves nothing until the body of the request has been read: when the body arrives,
  the call is issued and the deferred object resolved with its result, in the state the
  builder is in by then; when the read fails, nothing is issued and nothing resolved.
  Every call goes the route of \<^verbatim>\<open>nativeFetch\<close> (\<^verbatim>\<open>fetch.native\<close> when \<^verbatim>\<open>fetch\<close> is
  patched, the global \<^verbatim>\<open>fetch\<close> over the native \<^verbatim>\<open>XMLHttpRequest\<close> when only that is
  patched, the global \<^verbatim>\<open>fetch\<close> otherwise), so through no patched primitive, and the
  global scope is left as it was. A call for a URL has mode \<^verbatim>\<open>'cors'\<close> and credentials
  \<^verbatim>\<open>'include'\<close>, the method of \<open>init\<close> when it has a non-empty one, its headers when it
  has some and its body when that is truthy, and otherwise those of the intercepted
  request (no body for GET and HEAD, the body read otherwise). A call for a \<^verbatim>\<open>Request\<close>
  object is made with \<open>init\<close> as given.
\<close>

theorem forward_request:
  "(runs_through input w \<longrightarrow>
      (\<exists>c. forward input init w =
              w\<lparr>net := net w @ [c],
                deferred := resolve (FromNet (length (net w))) (deferred w)\<rparr> \<and>
           \<not> intercepted c \<and> native_route (gctx w) c \<and> call_input c = input \<and>
           (\<forall>rq. input = Req rq \<longrightarrow> call_init c = Some init) \<and>
           (\<forall>u. input = Url u \<longrightarrow>
              (\<exists>options. call_init c = Some options \<and>
                 cloned_options (event_request w) init JUndefined options)))) \<and>
   (\<not> runs_through input w \<longrightarrow>
      (\<exists>u. input = Url u \<and>
           forward input init w =
             w\<lparr>reading := reading w @
                  [\<lparr>sus_url = u, sus_init = init, sus_read = which_read (event_request w)\<rparr>]\<rparr>)) \<and>
   (k < length (reading w) \<longrightarrow>
      body_read_done k None w =
        w\<lparr>reading := take k (reading w) @ drop (Suc k) (reading w)\<rparr> \<and>
      (\<exists>c options.
         body_read_done k (Some dflt) w =
           w\<lparr>reading := take k (reading w) @ drop (Suc k) (reading w),
             net := net w @ [c],
             deferred := resolve (FromNet (length (net w))) (deferred w)\<rparr> \<and>
         \<not> intercepted c \<and> native_route (gctx w) c \<and>
         call_input c = Url (sus_url (reading w ! k)) \<and>
         call_init c = Some options \<and>
         cloned_options (event_request w) (sus_init (reading w ! k)) dflt options)) \<and>
   (deferred w = None \<longrightarrow>
      resolve (FromNet (length (net w))) (deferred w) = Some (FromNet (length (net w)))) \<and>
   (is_done (deferred w) \<longrightarrow>
      resolve (FromNet (length (net w))) (deferred w) = deferred w)"
proof -
  have through: "runs_through input w \<longrightarrow>
      (\<exists>c. forward input init w =
              w\<lparr>net := net w @ [c],
                deferred := resolve (FromNet (length (net w))) (deferred w)\<rparr> \<and>
           \<not> intercepted c \<and> native_route (gctx w) c \<and> call_input c = input \<and>
           (\<forall>rq. input = Req rq \<longrightarrow> call_init c = Some init) \<and>
           (\<forall>u. input = Url u \<longrightarrow>
              (\<exists>options. call_init c = Some options \<and>
                 cloned_options (event_request w) init JUndefined options)))"
  proof (cases input)
    case (Req rq)
    from forward_request_call [of rq init w] Req show ?thesis by auto
  next
    case (Url u)
    show ?thesis
    proof
      assume "runs_through input w"
      with Url have "forward input init w = forward_finish u init JUndefined w"
        by (auto simp: runs_through_def forward_def)
      with forward_finish_call [of u init JUndefined w] Url
      show "\<exists>c. forward input init w =
              w\<lparr>net := net w @ [c],
                deferred := resolve (FromNet (length (net w))) (deferred w)\<rparr> \<and>
           \<not> intercepted c \<and> native_route (gctx w) c \<and> call_input c = input \<and>
           (\<forall>rq. input = Req rq \<longrightarrow> call_init c = Some init) \<and>
           (\<forall>u. input = Url u \<longrightarrow>
              (\<exists>options. call_init c = Some options \<and>
                 cloned_options (event_request w) init JUndefined options))"
        by auto
    qed
  qed
  have suspended: "\<not> runs_through input w \<longrightarrow>
      (\<exists>u. input = Url u \<and>
           forward input init w =
             w\<lparr>reading := reading w @
                  [\<lparr>sus_url = u, sus_init = init, sus_read = which_read (event_request w)\<rparr>]\<rparr>)"
    by (cases input) (auto simp: runs_through_def forward_def)
  have resumed: "k < length (reading w) \<longrightarrow>
      body_read_done k None w =
        w\<lparr>reading := take k (reading w) @ drop (Suc k) (reading w)\<rparr> \<and>
      (\<exists>c options.
         body_read_done k (Some dflt) w =
           w\<lparr>reading := take k (reading w) @ drop (Suc k) (reading w),
             net := net w @ [c],
             deferred := resolve (FromNet (length (net w))) (deferred w)\<rparr> \<and>
         \<not> intercepted c \<and> native_route (gctx w) c \<and>
         call_input c = Url (sus_url (reading w ! k)) \<and>
         call_init c = Some options \<and>
         cloned_options (event_request w) (sus_init (reading w ! k)) dflt options)"
  proof
    assume k: "k < length (reading w)"
    let ?w1 = "w\<lparr>reading := take k (reading w) @ drop (Suc k) (reading w)\<rparr>"
    let ?s = "reading w ! k"
    have none: "body_read_done k None w = ?w1"
      using k by (simp add: body_read_done_def Let_def)
    have some: "body_read_done k (Some dflt) w = forward_finish (sus_url ?s) (sus_init ?s) dflt ?w1"
      using k by (simp add: body_read_done_def Let_def)
    from forward_finish_call [of "sus_url ?s" "sus_init ?s" dflt ?w1] obtain c options where
      f: "forward_finish (sus_url ?s) (sus_init ?s) dflt ?w1 =
           ?w1\<lparr>net := net ?w1 @ [c],
                deferred := resolve (FromNet (length (net ?w1))) (deferred ?w1)\<rparr>"
      and c: "\<not> intercepted c" "native_route (gctx ?w1) c" "call_input c = Url (sus_url ?s)"
        "call_init c = Some options"
        "cloned_options (event_request ?w1) (sus_init ?s) dflt options"
      by blast
    have "body_read_done k (Some dflt) w =
           w\<lparr>reading := take k (reading w) @ drop (Suc k) (reading w),
             net := net w @ [c],
             deferred := resolve (FromNet (length (net w))) (deferred w)\<rparr>"
      using some f by simp
    with none c show "body_read_done k None w =
        w\<lparr>reading := take k (reading w) @ drop (Suc k) (reading w)\<rparr> \<and>
      (\<exists>c options.
         body_read_done k (Some dflt) w =
           w\<lparr>reading := take k (reading w) @ drop (Suc k) (reading w),
             net := net w @ [c],
             deferred := resolve (FromNet (length (net w))) (deferred w)\<rparr> \<and>
         \<not> intercepted c \<and> native_route (gctx w) c \<and>
         call_input c = Url (sus_url (reading w ! k)) \<and>
         call_init c = Some options \<and>
         cloned_options (event_request w) (sus_init (reading w ! k)) dflt options)"
      by auto
  qed
  have pending: "deferred w = None \<longrightarrow>
      resolve (FromNet (length (net w))) (deferred w) = Some (FromNet (length (net w)))"
    by (simp add: resolve_pending)
  have settled: "is_done (deferred w) \<longrightarrow>
      resolve (FromNet (length (net w))) (deferred w) = deferred w"
    by (simp add: resolve_done)
  show ?thesis
    by (intro conjI through suspended resumed pending settled)
qed


theorem forward_request_witness:
  "runs_through (Req demo_post) (MockerResponse_new demo_post legacy_ctx) \<and>
   (\<exists>c. forward (Req demo_post) empty_init (MockerResponse_new demo_post legacy_ctx) =
          (MockerResponse_new demo_post legacy_ctx)\<lparr>net := [c], deferred := Some (FromNet 0)\<rparr> \<and>
        \<not> intercepted c \<and> via c = Fetch_native \<and> call_input c = Req demo_post \<and>
        call_init c = Some empty_init) \<and>
   \<not> runs_through (Url ''/backup'') (MockerResponse_new demo_post legacy_ctx) \<and>
   forward (Url ''/backup'') empty_init (MockerResponse_new demo_post legacy_ctx) =
     (MockerResponse_new demo_post legacy_ctx)
       \<lparr>reading := [\<lparr>sus_url = ''/backup'', sus_init = empty_init, sus_read = ReadBlob\<rparr>]\<rparr> \<and>
   body_read_done 0 None
     ((MockerResponse_new demo_post legacy_ctx)
       \<lparr>reading := [\<lparr>sus_url = ''/backup'', sus_init = empty_init, sus_read = ReadBlob\<rparr>]\<rparr>) =
     MockerResponse_new demo_post legacy_ctx \<and>
   (\<exists>c options.
      body_read_done 0 (Some (JStr ''payload''))
        ((MockerResponse_new demo_post legacy_ctx)
          \<lparr>reading := [\<lparr>sus_url = ''/backup'', sus_init = empty_init, sus_read = ReadBlob\<rparr>]\<rparr>) =
        (MockerResponse_new demo_post legacy_ctx)\<lparr>net := [c], deferred := Some (FromNet 0)\<rparr> \<and>
      \<not> intercepted c \<and> via c = Fetch_native \<and> call_input c = Url ''/backup'' \<and>
      call_init c = Some options \<and>
      init_mode options = Some ''cors'' \<and> init_credentials options = Some ''include'' \<and>
      init_method options = Some ''POST'' \<and>
      init_headers options = Some [(''content-type'', ''application/json'')] \<and>
      init_body options = JStr ''payload'')"
proof -
  let ?n = "MockerResponse_new demo_post legacy_ctx"
  let ?s = "?n\<lparr>reading := [\<lparr>sus_url = ''/backup'', sus_init = empty_init, sus_read = ReadBlob\<rparr>]\<rparr>"
  have rt: "runs_through (Req demo_post) ?n" and nrt: "\<not> runs_through (Url ''/backup'') ?n"
    by (simp_all add: runs_through_def new_value demo_post_def)
  have wr: "which_read (event_request ?n) = ReadBlob"
    by (simp add: which_read_def new_value demo_post_def hdr_get_def lower_content_type)
  have fields: "net ?n = []" "deferred ?n = None" "reading ?n = []" "gctx ?n = legacy_ctx"
    "event_request ?n = demo_post"
    by (simp_all add: new_value)
  have route: "native_route legacy_ctx c \<Longrightarrow> via c = Fetch_native" for c
    by (simp add: native_route_def legacy_ctx_def)
  note t1 = forward_request [where input = "Req demo_post" and init = empty_init and w = ?n
      and k = 0 and dflt = JUndefined]
  note t2 = forward_request [where input = "Url ''/backup''" and init = empty_init and w = ?n
      and k = 0 and dflt = JUndefined]
  note t3 = forward_request [where input = "Req demo_post" and init = empty_init and w = ?s
      and k = 0 and dflt = "JStr ''payload''"]
  from t1 rt obtain c where
    c: "forward (Req demo_post) empty_init ?n =
          ?n\<lparr>net := net ?n @ [c], deferred := resolve (FromNet (length (net ?n))) (deferred ?n)\<rparr>"
      "\<not> intercepted c" "native_route (gctx ?n) c" "call_input c = Req demo_post"
      "call_init c = Some empty_init"
    by blast
  have 1: "\<exists>c. forward (Req demo_post) empty_init ?n =
          ?n\<lparr>net := [c], deferred := Some (FromNet 0)\<rparr> \<and>
        \<not> intercepted c \<and> via c = Fetch_native \<and> call_input c = Req demo_post \<and>
        call_init c = Some empty_init"
    using c route [of c] by (intro exI [where x = c]) (simp add: fields resolve_pending)
  from t2 nrt wr have 2: "forward (Url ''/backup'') empty_init ?n = ?s"
    by (auto simp: fields)
  have k: "0 < length (reading ?s)" by simp
  from t3 k have 3: "body_read_done 0 None ?s = ?n"
    by (simp add: fields)
  from t3 k obtain d options where
    d: "body_read_done 0 (Some (JStr ''payload'')) ?s =
           ?s\<lparr>reading := take 0 (reading ?s) @ drop (Suc 0) (reading ?s),
             net := net ?s @ [d],
             deferred := resolve (FromNet (length (net ?s))) (deferred ?s)\<rparr>"
      "\<not> intercepted d" "native_route (gctx ?s) d"
      "call_input d = Url (sus_url (reading ?s ! 0))"
      "call_init d = Some options"
      "cloned_options (event_request ?s) (sus_init (reading ?s ! 0)) (JStr ''payload'') options"
    by blast
  have o: "init_mode options = Some ''cors'' \<and> init_credentials options = Some ''include'' \<and>
      init_method options = Some ''POST'' \<and>
      init_headers options = Some [(''content-type'', ''application/json'')] \<and>
      init_body options = JStr ''payload''"
    using d(6) by (simp add: cloned_options_def new_value empty_init_def demo_post_def)
  have 4: "\<exists>c options.
      body_read_done 0 (Some (JStr ''payload'')) ?s =
        ?n\<lparr>net := [c], deferred := Some (FromNet 0)\<rparr> \<and>
      \<not> intercepted c \<and> via c = Fetch_native \<and> call_input c = Url ''/backup'' \<and>
      call_init c = Some options \<and>
      init_mode options = Some ''cors'' \<and> init_credentials options = Some ''include'' \<and>
      init_method options = Some ''POST'' \<and>
      init_headers options = Some [(''content-type'', ''application/json'')] \<and>
      init_body options = JStr ''payload''"
    using d(1-5) o route [of d]
    by (intro exI [where x = d] exI [where x = options]) (simp add: fields resolve_pending)
  show ?thesis
    by (intro conjI rt nrt 1 2 3 4)
qed

text \<open>
  C9 as stated fails for a \<^verbatim>\<open>Request\<close> object: forwarding one with no \<open>init\<close> (what the
  builder's own timer does) passes neither \<^verbatim>\<open>mode: 'cors'\<close> nor
  \<^verbatim>\<open>credentials: 'include'\<close> to the network call.
\<close>

theorem forward_always_cors_counterexample:
  "deferred (MockerResponse_new demo_post sw_ctx) = None \<and>
   net (forward (Req demo_post) empty_init (MockerResponse_new demo_post sw_ctx)) =
     [\<lparr>via = Fetch_global, at_ctx = sw_ctx, call_input = Req demo_post,
       call_init = Some empty_init, on_return = NoContinuation\<rparr>] \<and>
   init_mode empty_init = None \<and> init_credentials empty_init = None"
  by (simp add: new_value forward_def nativeFetch_def issue_def Let_def sw_ctx_def empty_init_def)

subsection \<open>The builder's timer\<close>

lemma clearTimeout_fields [simp]:
  "event_request (clearTimeout t w) = event_request w"
  "deferred (clearTimeout t w) = deferred w"
  "logs (clearTimeout t w) = logs w"
  "net (clearTimeout t w) = net w"
  "gctx (clearTimeout t w) = gctx w"
  "resolved (clearTimeout t w) = resolved w"
  "reading (clearTimeout t w) = reading w"
  by (simp_all add: clearTimeout_def)

lemma not_armed_cleared: "\<not> armed t (clearTimeout t w)"
  by (auto simp: armed_def clearTimeout_def)

lemma armed_resolved_flag [simp]: "armed t (w\<lparr>resolved := b\<rparr>) = armed t w"
  by (simp add: armed_def)

text \<open>
  C5, as the code has it. The constructor arms the builder's timer with a delay of
  \<^verbatim>\<open>10 * 1e3\<close> milliseconds. When it fires and the deferred object is not done, an
  error-level line is logged (the call is \<^verbatim>\<open>responseLog.error\<close>) and \<^verbatim>\<open>forward\<close> is
  called on the request of the event with no \<open>init\<close>, which issues the request through
  \<^verbatim>\<open>nativeFetch\<close> and resolves the deferred object with its result; when the deferred
  object is done, firing does nothing. The reactions on the deferred promise clear the
  timer once the promise is settled, fulfilled or rejected, and leave everything as it is
  while the promise is pending; a cleared timer does not fire.
\<close>

theorem response_timer:
  "timers (MockerResponse_new rq g) = [(ResponseTimer, 10 * 1000)] \<and>
   (armed ResponseTimer w \<and> \<not> is_done (deferred w) \<longrightarrow>
      (\<exists>c. fire ResponseTimer w =
              (clearTimeout ResponseTimer w)
                \<lparr>logs := logs w @
                   [(Error, ''processing response timeout, forgot to call `res.end()`?'')],
                 net := net w @ [c],
                 deferred := Some (FromNet (length (net w)))\<rparr> \<and>
           \<not> intercepted c \<and> native_route (gctx w) c \<and>
           call_input c = Req (event_request w) \<and> call_init c = Some empty_init)) \<and>
   (armed ResponseTimer w \<and> is_done (deferred w) \<longrightarrow>
      fire ResponseTimer w = clearTimeout ResponseTimer w) \<and>
   (\<not> armed ResponseTimer w \<longrightarrow> fire ResponseTimer w = w) \<and>
   \<not> armed ResponseTimer (clearTimeout ResponseTimer w) \<and>
   (deferred_promise w = Fulfilled \<or> deferred_promise w = Rejected
      \<longrightarrow> \<not> armed ResponseTimer (reactions w)) \<and>
   (deferred_promise w = Pending \<longrightarrow> reactions w = w)"
proof -
  let ?msg = "''processing response timeout, forgot to call `res.end()`?''"
  have armed_new: "timers (MockerResponse_new rq g) = [(ResponseTimer, 10 * 1000)]"
    by (simp add: MockerResponse_new_def setTimeout_def)
  have pending: "armed ResponseTimer w \<and> \<not> is_done (deferred w) \<longrightarrow>
      (\<exists>c. fire ResponseTimer w =
              (clearTimeout ResponseTimer w)
                \<lparr>logs := logs w @ [(Error, ?msg)],
                 net := net w @ [c],
                 deferred := Some (FromNet (length (net w)))\<rparr> \<and>
           \<not> intercepted c \<and> native_route (gctx w) c \<and>
           call_input c = Req (event_request w) \<and> call_init c = Some empty_init)"
  proof (intro impI, elim conjE)
    assume a: "armed ResponseTimer w" and p: "\<not> is_done (deferred w)"
    let ?w1 = "log Error ?msg (clearTimeout ResponseTimer w)"
    have f: "fire ResponseTimer w = forward (Req (event_request w)) empty_init ?w1"
      using a p by (simp add: fire_def response_timeout_def)
    from forward_request_call [of "event_request w" empty_init ?w1] obtain c where
      c: "forward (Req (event_request w)) empty_init ?w1 =
            ?w1\<lparr>net := net ?w1 @ [c],
                 deferred := resolve (FromNet (length (net ?w1))) (deferred ?w1)\<rparr>"
        "\<not> intercepted c" "native_route (gctx ?w1) c" "call_input c = Req (event_request w)"
        "call_init c = Some empty_init"
      by blast
    have none: "deferred w = None" using p by (simp add: is_done_def)
    have "fire ResponseTimer w =
              (clearTimeout ResponseTimer w)
                \<lparr>logs := logs w @ [(Error, ?msg)],
                 net := net w @ [c],
                 deferred := Some (FromNet (length (net w)))\<rparr>"
      using f c(1) none by (simp add: resolve_pending log_def)
    with c show "\<exists>c. fire ResponseTimer w =
              (clearTimeout ResponseTimer w)
                \<lparr>logs := logs w @ [(Error, ?msg)],
                 net := net w @ [c],
                 deferred := Some (FromNet (length (net w)))\<rparr> \<and>
           \<not> intercepted c \<and> native_route (gctx w) c \<and>
           call_input c = Req (event_request w) \<and> call_init c = Some empty_init"
      by (intro exI [where x = c]) simp
  qed
  have done_already: "armed ResponseTimer w \<and> is_done (deferred w) \<longrightarrow>
      fire ResponseTimer w = clearTimeout ResponseTimer w"
    by (simp add: fire_def response_timeout_def)
  have spent: "\<not> armed ResponseTimer w \<longrightarrow> fire ResponseTimer w = w"
    by (simp add: fire_def)
  have settled: "deferred_promise w = Fulfilled \<or> deferred_promise w = Rejected
      \<longrightarrow> \<not> armed ResponseTimer (reactions w)"
    by (auto simp: reactions_def not_armed_cleared)
  have unsettled: "deferred_promise w = Pending \<longrightarrow> reactions w = w"
    by (simp add: reactions_def)
  show ?thesis
    by (intro conjI armed_new pending done_already spent not_armed_cleared settled unsettled)
qed


theorem response_timer_witness:
  "timers (MockerResponse_new demo_get sw_ctx) = [(ResponseTimer, 10 * 1000)] \<and>
   armed ResponseTimer (MockerResponse_new demo_get sw_ctx) \<and>
   \<not> is_done (deferred (MockerResponse_new demo_get sw_ctx)) \<and>
   (\<exists>c. fire ResponseTimer (MockerResponse_new demo_get sw_ctx) =
          (clearTimeout ResponseTimer (MockerResponse_new demo_get sw_ctx))
            \<lparr>logs := [(Error, ''processing response timeout, forgot to call `res.end()`?'')],
             net := [c], deferred := Some (FromNet 0)\<rparr> \<and>
        \<not> intercepted c \<and> call_input c = Req demo_get \<and> call_init c = Some empty_init) \<and>
   armed ResponseTimer (snd (res_end demo_env (MockerResponse_new demo_get sw_ctx))) \<and>
   is_done (deferred (snd (res_end demo_env (MockerResponse_new demo_get sw_ctx)))) \<and>
   fire ResponseTimer (snd (res_end demo_env (MockerResponse_new demo_get sw_ctx))) =
     clearTimeout ResponseTimer (snd (res_end demo_env (MockerResponse_new demo_get sw_ctx))) \<and>
   deferred_promise (snd (res_end demo_env (MockerResponse_new demo_get sw_ctx))) = Fulfilled \<and>
   \<not> armed ResponseTimer
      (reactions (snd (res_end demo_env (MockerResponse_new demo_get sw_ctx)))) \<and>
   deferred_promise (net_return 0 False
      (forward (Req demo_get) empty_init (MockerResponse_new demo_get sw_ctx))) = Rejected \<and>
   \<not> armed ResponseTimer (reactions (net_return 0 False
      (forward (Req demo_get) empty_init (MockerResponse_new demo_get sw_ctx))))"
proof -
  let ?n = "MockerResponse_new demo_get sw_ctx"
  let ?d = "snd (res_end demo_env ?n)"
  let ?r = "net_return 0 False (forward (Req demo_get) empty_init ?n)"
  have a: "armed ResponseTimer ?n" and p: "\<not> is_done (deferred ?n)"
    by (simp_all add: new_value armed_def is_done_def)
  have fields: "logs ?n = []" "net ?n = []" "event_request ?n = demo_get"
    by (simp_all add: new_value)
  have a': "armed ResponseTimer ?d" and d': "is_done (deferred ?d)"
    and f': "deferred_promise ?d = Fulfilled"
    by (simp_all add: demo_simps armed_def deferred_promise_def)
  have rj: "deferred_promise ?r = Rejected"
    by (simp add: new_value forward_def nativeFetch_def issue_def Let_def net_return_def
        deferred_promise_def resolve_def sw_ctx_def)
  note t1 = response_timer [where w = ?n and rq = demo_get and g = sw_ctx]
  note t2 = response_timer [where w = ?d and rq = demo_get and g = sw_ctx]
  note t3 = response_timer [where w = ?r and rq = demo_get and g = sw_ctx]
  from t1 have 0: "timers ?n = [(ResponseTimer, 10 * 1000)]"
    by (rule conjunct1)
  from t1 a p obtain c where
    c: "fire ResponseTimer ?n =
          (clearTimeout ResponseTimer ?n)
            \<lparr>logs := logs ?n @ [(Error, ''processing response timeout, forgot to call `res.end()`?'')],
             net := net ?n @ [c], deferred := Some (FromNet (length (net ?n)))\<rparr>"
      "\<not> intercepted c" "call_input c = Req (event_request ?n)" "call_init c = Some empty_init"
    by blast
  have 1: "\<exists>c. fire ResponseTimer ?n =
          (clearTimeout ResponseTimer ?n)
            \<lparr>logs := [(Error, ''processing response timeout, forgot to call `res.end()`?'')],
             net := [c], deferred := Some (FromNet 0)\<rparr> \<and>
        \<not> intercepted c \<and> call_input c = Req demo_get \<and> call_init c = Some empty_init"
    using c by (intro exI [where x = c]) (simp add: fields)
  from t2 a' d' have 2: "fire ResponseTimer ?d = clearTimeout ResponseTimer ?d"
    by blast
  from t2 f' have 3: "\<not> armed ResponseTimer (reactions ?d)"
    by blast
  from t3 rj have 4: "\<not> armed ResponseTimer (reactions ?r)"
    by blast
  show ?thesis
    by (intro conjI 0 a p 1 a' d' 2 f' 3 rj 4)
qed

text \<open>
  C5 as stated fails in one word: what the timer logs on a pending builder is an
  error-level line, not a warning.
\<close>

theorem response_timer_counterexample:
  "armed ResponseTimer (MockerResponse_new demo_get sw_ctx) \<and>
   deferred (MockerResponse_new demo_get sw_ctx) = None \<and>
   logs (fire ResponseTimer (MockerResponse_new demo_get sw_ctx)) =
     [(Error, ''processing response timeout, forgot to call `res.end()`?'')] \<and>
   Warn \<notin> fst ` set (logs (fire ResponseTimer (MockerResponse_new demo_get sw_ctx)))"
  by (simp add: new_value armed_def fire_def response_timeout_def is_done_def clearTimeout_def
      forward_def nativeFetch_def issue_def Let_def log_def sw_ctx_def)

subsection \<open>The listener's timer\<close>

lemma listener_timers:
  "timers (listener rs rq g) =
     timers (snd (some_match rs (before_routers rq g))) @ [(GlobalTimer, 2000)]"
  by (simp add: listener_some_match setTimeout_def)

text \<open>
  What the callback does: nothing when the listener's flag is set; otherwise it sets the
  flag and calls the global \<^verbatim>\<open>fetch\<close> on the request of the event, a call that
  re-enters the mocker exactly when that \<^verbatim>\<open>fetch\<close>, or the \<^verbatim>\<open>XMLHttpRequest\<close> under
  it, is the patched one.
\<close>

lemma global_timer_fires:
  "armed GlobalTimer w \<Longrightarrow> \<not> resolved w \<Longrightarrow>
   fire GlobalTimer w =
     ((clearTimeout GlobalTimer w)\<lparr>resolved := True\<rparr>)
       \<lparr>net := net w @ [\<lparr>via = Fetch_global, at_ctx = gctx w,
                          call_input = Req (event_request w), call_init = None,
                          on_return = ResolveDeferred\<rparr>]\<rparr>"
  by (simp add: fire_def global_timeout_def)

lemma global_timer_call_intercepted:
  "intercepted \<lparr>via = Fetch_global, at_ctx = g, call_input = input, call_init = init,
                on_return = k\<rparr>
   \<longleftrightarrow> fetch_patched g \<or> xhr_state g = XhrPatched"
  by (simp add: intercepted_def)

lemma global_timer_idle:
  "armed GlobalTimer w \<Longrightarrow> resolved w \<Longrightarrow> fire GlobalTimer w = clearTimeout GlobalTimer w"
  by (simp add: fire_def global_timeout_def)

text \<open>
  The flag is set by the reactions once the deferred promise is fulfilled: at once for a
  response the builder built, and only when the network call has come back for a
  response forwarded.
\<close>

lemma flag_after_built: "deferred w = Some (Built r) \<Longrightarrow> resolved (reactions w)"
  by (simp add: reactions_def deferred_promise_def clearTimeout_def)

lemma flag_while_forwarding:
  "deferred w = Some (FromNet i) \<Longrightarrow> i \<notin> set (succeeded w) \<Longrightarrow>
   resolved (reactions w) = resolved w"
  by (simp add: reactions_def deferred_promise_def clearTimeout_def)

text \<open>The continuation of the fallback call resolves the deferred object, if it is pending.\<close>

lemma fallback_result_resolves:
  "i < length (net w) \<Longrightarrow> i \<notin> set (succeeded w) \<Longrightarrow> i \<notin> set (failed w) \<Longrightarrow>
   on_return (net w ! i) = ResolveDeferred \<Longrightarrow>
   deferred (net_return i True w) = resolve (FromNet i) (deferred w)"
  by (simp add: net_return_def Let_def)

text \<open>
  C4. The claim is that the listener's timer, on a builder still unresolved, performs a
  real, unintercepted request, and that it changes nothing on a builder already
  resolved. The timer is armed with 2000 milliseconds, and its callback calls the global
  \<^verbatim>\<open>fetch\<close>, not \<^verbatim>\<open>nativeFetch\<close>: in the legacy scope, where \<^verbatim>\<open>fetch\<close> is the patched
  one, the request of a pending builder goes back into the mocker. And the callback
  tests the listener's flag, not \<^verbatim>\<open>_deferred.done\<close>: on a builder that a handler has
  forwarded, whose network call has not come back, it issues a second request.
\<close>

theorem global_fallback_through_patched_fetch:
  "timers (dispatch [] demo_get legacy_ctx) = [(ResponseTimer, 10000), (GlobalTimer, 2000)] \<and>
   deferred (dispatch [] demo_get legacy_ctx) = None \<and>
   net (step demo_env (Fire GlobalTimer) (dispatch [] demo_get legacy_ctx)) =
     [\<lparr>via = Fetch_global, at_ctx = legacy_ctx, call_input = Req demo_get,
       call_init = None, on_return = ResolveDeferred\<rparr>] \<and>
   intercepted \<lparr>via = Fetch_global, at_ctx = legacy_ctx, call_input = Req demo_get,
       call_init = None, on_return = ResolveDeferred\<rparr> \<and>
   deferred (dispatch [forwarding_router] demo_get sw_ctx) = Some (FromNet 0) \<and>
   length (net (dispatch [forwarding_router] demo_get sw_ctx)) = 1 \<and>
   net (step demo_env (Fire GlobalTimer) (dispatch [forwarding_router] demo_get sw_ctx)) =
     net (dispatch [forwarding_router] demo_get sw_ctx) @
     [\<lparr>via = Fetch_global, at_ctx = sw_ctx, call_input = Req demo_get,
       call_init = None, on_return = ResolveDeferred\<rparr>]"
proof -
  have d1: "dispatch [] demo_get legacy_ctx =
      (before_routers demo_get legacy_ctx)\<lparr>timers := [(ResponseTimer, 10000), (GlobalTimer, 2000)]\<rparr>"
    by (simp add: dispatch_def listener_some_match setTimeout_def reactions_def
        deferred_promise_def before_routers_value)
  have f2: "snd (forwarding_router (before_routers demo_get sw_ctx)) =
      (before_routers demo_get sw_ctx)
        \<lparr>net := [\<lparr>via = Fetch_global, at_ctx = sw_ctx, call_input = Url ''/elsewhere'',
                  call_init = Some (forward_options demo_get empty_init JUndefined),
                  on_return = NoContinuation\<rparr>],
         deferred := Some (FromNet 0)\<rparr>"
    by (simp add: forwarding_router_def forward_def forward_finish_def nativeFetch_def issue_def
        Let_def before_routers_value resolve_def sw_ctx_def demo_get_def)
  have d2: "dispatch [forwarding_router] demo_get sw_ctx =
      (before_routers demo_get sw_ctx)
        \<lparr>net := [\<lparr>via = Fetch_global, at_ctx = sw_ctx, call_input = Url ''/elsewhere'',
                  call_init = Some (forward_options demo_get empty_init JUndefined),
                  on_return = NoContinuation\<rparr>],
         deferred := Some (FromNet 0),
         timers := [(ResponseTimer, 10000), (GlobalTimer, 2000)]\<rparr>"
  proof -
    have m: "some_match [forwarding_router] (before_routers demo_get sw_ctx) =
        (True, snd (forwarding_router (before_routers demo_get sw_ctx)))"
      by (simp add: forwarding_router_def)
    show ?thesis
      unfolding dispatch_def listener_some_match m snd_conv f2
      by (simp add: setTimeout_def reactions_def deferred_promise_def before_routers_value)
  qed
  show ?thesis
    unfolding d1 d2
    by (simp add: step_def fire_def armed_def global_timeout_def clearTimeout_def reactions_def
        deferred_promise_def before_routers_value intercepted_def legacy_ctx_def)
qed

end
